theory Spec2Isabelle
  imports Main
begin

section \<open>Strings\<close>

text \<open>
  A JavaScript string is modelled by its UTF-8 encoding, a \<open>string\<close> of bytes: file
  contents, captured output and inputs reach the action through UTF-8 decoding, so every
  string it handles is well formed. Concatenation, equality, emptiness and the tests for an
  ASCII prefix or suffix read the same on the encoding. A value used as a condition is
  truthy exactly when it is not the empty string.
\<close>

definition startsWith :: "string \<Rightarrow> string \<Rightarrow> bool" where
  "startsWith s p = (take (length p) s = p)"

definition endsWith :: "string \<Rightarrow> string \<Rightarrow> bool" where
  "endsWith s p = (length p \<le> length s \<and> drop (length s - length p) s = p)"

fun strIncludes :: "string \<Rightarrow> string \<Rightarrow> bool" where
  "strIncludes [] p = (p = [])"
| "strIncludes (c # cs) p = (startsWith (c # cs) p \<or> strIncludes cs p)"

text \<open>
  \<open>String.prototype.trim\<close> removes white space and line terminators at both ends. These
  are the code points U+0009 to U+000D, U+0020, U+00A0, U+1680, U+2000 to U+200A, U+2028,
  U+2029, U+202F, U+205F, U+3000 and U+FEFF, listed here by their encodings.
\<close>

definition whiteSpaceCodes :: "string list" where
  "whiteSpaceCodes =
     [[CHR 0x09], [CHR 0x0A], [CHR 0x0B], [CHR 0x0C], [CHR 0x0D], [CHR 0x20],
      [CHR 0xC2, CHR 0xA0],
      [CHR 0xE1, CHR 0x9A, CHR 0x80],
      [CHR 0xE2, CHR 0x80, CHR 0x80], [CHR 0xE2, CHR 0x80, CHR 0x81], [CHR 0xE2, CHR 0x80, CHR 0x82],
      [CHR 0xE2, CHR 0x80, CHR 0x83], [CHR 0xE2, CHR 0x80, CHR 0x84], [CHR 0xE2, CHR 0x80, CHR 0x85],
      [CHR 0xE2, CHR 0x80, CHR 0x86], [CHR 0xE2, CHR 0x80, CHR 0x87], [CHR 0xE2, CHR 0x80, CHR 0x88],
      [CHR 0xE2, CHR 0x80, CHR 0x89], [CHR 0xE2, CHR 0x80, CHR 0x8A],
      [CHR 0xE2, CHR 0x80, CHR 0xA8], [CHR 0xE2, CHR 0x80, CHR 0xA9], [CHR 0xE2, CHR 0x80, CHR 0xAF],
      [CHR 0xE2, CHR 0x81, CHR 0x9F],
      [CHR 0xE3, CHR 0x80, CHR 0x80],
      [CHR 0xEF, CHR 0xBB, CHR 0xBF]]"

definition leadingWhiteSpace :: "string \<Rightarrow> string option" where
  "leadingWhiteSpace s = find (startsWith s) whiteSpaceCodes"

definition trailingWhiteSpace :: "string \<Rightarrow> string option" where
  "trailingWhiteSpace s = find (endsWith s) whiteSpaceCodes"

function trimStart :: "string \<Rightarrow> string" where
  "trimStart s =
     (case leadingWhiteSpace s of
        None \<Rightarrow> s
      | Some ws \<Rightarrow> trimStart (drop (length ws) s))"
  by pat_completeness auto
termination
proof (relation "measure length")
  show "wf (measure length)" by simp
next
  fix s ws
  assume a: "leadingWhiteSpace s = Some ws"
  then have m: "ws \<in> set whiteSpaceCodes" and p: "take (length ws) s = ws"
    by (auto simp: leadingWhiteSpace_def startsWith_def find_Some_iff)
  from p have "length ws \<le> length s"
    by (metis length_take min.cobounded2 min.commute)
  moreover from m have "ws \<noteq> []"
    by (auto simp: whiteSpaceCodes_def)
  ultimately show "(drop (length ws) s, s) \<in> measure length"
    by (cases ws) auto
qed

function trimEnd :: "string \<Rightarrow> string" where
  "trimEnd s =
     (case trailingWhiteSpace s of
        None \<Rightarrow> s
      | Some ws \<Rightarrow> trimEnd (take (length s - length ws) s))"
  by pat_completeness auto
termination
proof (relation "measure length")
  show "wf (measure length)" by simp
next
  fix s ws
  assume a: "trailingWhiteSpace s = Some ws"
  then have m: "ws \<in> set whiteSpaceCodes" and p: "length ws \<le> length s"
    by (auto simp: trailingWhiteSpace_def endsWith_def find_Some_iff)
  from m have "ws \<noteq> []"
    by (auto simp: whiteSpaceCodes_def)
  with p show "(take (length s - length ws) s, s) \<in> measure length"
    by (cases ws) auto
qed

declare trimStart.simps [simp del]

declare trimEnd.simps [simp del]

definition trim :: "string \<Rightarrow> string" where
  "trim s = trimEnd (trimStart s)"

text \<open>\<open>String.prototype.split\<close> at the line feed.\<close>

fun splitLines :: "string \<Rightarrow> string list" where
  "splitLines [] = [[]]"
| "splitLines (c # cs) =
     (if c = CHR 0x0A then [] # splitLines cs
      else (case splitLines cs of
              [] \<Rightarrow> [[c]]
            | l # ls \<Rightarrow> (c # l) # ls))"

text \<open>
  The match of a line against the pattern for \<open>key=value\<close>: one or more characters
  other than the equals sign, the equals sign, and then any characters up to the end of
  the line. The dot of the pattern matches no line terminator (U+000A, U+000D, U+2028,
  U+2029), so a value that holds one does not match.
\<close>

definition lineTerminatorCodes :: "string list" where
  "lineTerminatorCodes =
     [[CHR 0x0A], [CHR 0x0D], [CHR 0xE2, CHR 0x80, CHR 0xA8], [CHR 0xE2, CHR 0x80, CHR 0xA9]]"

definition matchKeyValue :: "string \<Rightarrow> (string \<times> string) option" where
  "matchKeyValue line =
     (let key = takeWhile (\<lambda>c. c \<noteq> CHR ''='') line;
          rest = dropWhile (\<lambda>c. c \<noteq> CHR ''='') line
      in if key = [] \<or> rest = [] then None
         else if list_ex (strIncludes (tl rest)) lineTerminatorCodes then None
         else Some (key, tl rest))"

section \<open>Effects\<close>

text \<open>
  An event is a call the action makes to its host: a log line at warning level or above,
  a failure signal, or a call to the file system, the network, the cache backend or a
  subprocess. \<open>core.debug\<close> and \<open>core.info\<close> lines are not recorded.
\<close>

datatype event =
    Warning string
  | ErrorLog string
  | SetFailed string
  | ReadFileSync string
  | ExistsSync string
  | ReaddirSync string
  | StatSync string
  | ChmodSync string
  | MkdirSync string
  | CopyFileSync string string
  | Fetch string "(string \<times> string) list"
  | DownloadTool string
  | ExtractZip string
  | ExtractTar string
  | CacheRestore "string list" string
  | CacheSave "string list" string
  | Exec string "string list"
  | SetEnv string string
  | ExportVariable string string
  | AddPath string
  | SetOutput string string

text \<open>
  A computation yields the events it caused, in order, and either the message of the
  \<open>Error\<close> it threw (\<open>Inl\<close>) or its value (\<open>Inr\<close>).
\<close>

type_synonym 'a io = "event list \<times> (string + 'a)"

definition succeed :: "'a \<Rightarrow> 'a io" where
  "succeed x = ([], Inr x)"

definition throwError :: "string \<Rightarrow> 'a io" where
  "throwError msg = ([], Inl msg)"

definition emit :: "event \<Rightarrow> unit io" where
  "emit ev = ([ev], Inr ())"

definition call :: "event \<Rightarrow> string + 'a \<Rightarrow> 'a io" where
  "call ev outcome = ([ev], outcome)"

definition andThen :: "'a io \<Rightarrow> ('a \<Rightarrow> 'b io) \<Rightarrow> 'b io" where
  "andThen m f =
     (case snd m of
        Inl msg \<Rightarrow> (fst m, Inl msg)
      | Inr x \<Rightarrow> (fst m @ fst (f x), snd (f x)))"

definition tryCatch :: "'a io \<Rightarrow> (string \<Rightarrow> 'a io) \<Rightarrow> 'a io" where
  "tryCatch m handler =
     (case snd m of
        Inl msg \<Rightarrow> (fst m @ fst (handler msg), snd (handler msg))
      | Inr x \<Rightarrow> m)"

section \<open>The host\<close>

text \<open>
  The response of \<open>fetch\<close>: \<open>json\<close> is the parsed body, \<open>None\<close> for a falsy value and
  \<open>Some t\<close> for an object whose \<open>tag_name\<close> field is \<open>t\<close> (\<open>None\<close> when absent). The
  status is kept as its decimal rendering.
\<close>

record response =
  ok :: bool
  status :: string
  bodyText :: "string + string"
  json :: "string + string option option"

text \<open>
  What \<open>yaml.load\<close> returns, as far as \<open>processEnvVars\<close> looks at it: a value that is not
  an object (or is \<open>null\<close>), or an object given by its entries in the order of
  \<open>Object.entries\<close>. The value of an entry is a string, is \<open>null\<close> or \<open>undefined\<close>,
  or is anything else, which has no \<open>trim\<close> method.
\<close>

datatype yamlScalar = YString string | YNull | YOther

datatype yamlValue = YNotObject | YEntries "(string \<times> yamlScalar) list"

text \<open>
  The world gives the outcome of every call the action can make to its host. Each call
  is made at most once per run with a given argument, except \<open>which task\<close>, which has one
  field per call site. \<open>inputs\<close> is what \<open>core.getInput\<close> returns, the empty string for an
  input that is not set. \<open>existsSync\<close> never throws; the other file system calls may.
  The cache backend answers a restore with the key it hit, or with nothing on a miss.
  The version query gives the standard output the listener captured and, when \<open>exec\<close>
  rejects, the message of its error.
\<close>

record world =
  platform :: string
  arch :: string
  tmpdir :: string
  joinOutcome :: "string \<Rightarrow> string \<Rightarrow> string"
  dirnameOutcome :: "string \<Rightarrow> string"
  inputs :: "string \<Rightarrow> string"
  readFileOutcome :: "string \<Rightarrow> string + string"
  existsOutcome :: "string \<Rightarrow> bool"
  readdirOutcome :: "string \<Rightarrow> string + string list"
  statIsDirectory :: "string \<Rightarrow> string + bool"
  chmodOutcome :: "string \<Rightarrow> string + unit"
  mkdirOutcome :: "string \<Rightarrow> string + unit"
  copyFileOutcome :: "string \<Rightarrow> string \<Rightarrow> string + unit"
  fetchOutcome :: "string \<Rightarrow> (string \<times> string) list \<Rightarrow> string + response"
  downloadOutcome :: "string \<Rightarrow> string + string"
  extractZipOutcome :: "string \<Rightarrow> string + string"
  extractTarOutcome :: "string \<Rightarrow> string + string"
  cacheRestoreOutcome :: "string list \<Rightarrow> string \<Rightarrow> string + string option"
  cacheSaveOutcome :: "string list \<Rightarrow> string \<Rightarrow> string + unit"
  whichProbe :: "string + unit"
  whichLocate :: "string + string"
  whichVerify :: "string + string"
  versionQuery :: "string \<Rightarrow> string \<times> string option"
  yamlLoad :: "string \<Rightarrow> string + yamlValue"
  setEnvOutcome :: "string \<Rightarrow> string \<Rightarrow> string + unit"
  exportOutcome :: "string \<Rightarrow> string \<Rightarrow> string + unit"

text \<open>
  \<open>path.join\<close> never returns the empty string: a zero-length result is replaced by a dot.
\<close>

definition pathJoin :: "world \<Rightarrow> string \<Rightarrow> string \<Rightarrow> string" where
  "pathJoin w a b = (let p = joinOutcome w a b in if p = [] then ''.'' else p)"

section \<open>constants.ts\<close>

text \<open>
  The two mappings are object literals indexed by \<open>process.platform\<close> and
  \<open>process.arch\<close>. Those range over the fixed identifiers of the runtime, none of which
  names a property that an object literal inherits, so indexing is the lookup in the table.
  \<open>EXE_EXTENSION\<close> is computed from \<open>process.platform\<close> when the module is loaded.
\<close>

definition RELEASES_API_URL :: string where
  "RELEASES_API_URL = ''https://api.github.com/repos/go-task/task/releases''"

definition OS_MAPPING :: "string \<rightharpoonup> string" where
  "OS_MAPPING = map_of [(''win32'', ''windows''), (''darwin'', ''darwin''), (''linux'', ''linux'')]"

definition ARCH_MAPPING :: "string \<rightharpoonup> string" where
  "ARCH_MAPPING = map_of [(''x64'', ''amd64''), (''arm64'', ''arm64''), (''arm'', ''arm'')]"

definition EXE_EXTENSION :: "world \<Rightarrow> string" where
  "EXE_EXTENSION w = (if platform w = ''win32'' then ''.exe'' else [])"

definition CACHE_DIR :: string where
  "CACHE_DIR = ''task-runner''"

definition RELEASES_URL :: string where
  "RELEASES_URL = ''https://github.com/go-task/task/releases/download''"

section \<open>utils.ts\<close>

definition getCacheDirectory :: "world \<Rightarrow> string" where
  "getCacheDirectory w = pathJoin w (tmpdir w) CACHE_DIR"

definition cleanVersionFromTag :: "string \<Rightarrow> string" where
  "cleanVersionFromTag tagName = (if startsWith tagName ''v'' then drop 1 tagName else tagName)"

definition logAndFail :: "string \<Rightarrow> 'a io" where
  "logAndFail message = andThen (emit (SetFailed message)) (\<lambda>_. throwError message)"

definition fetchLatestRelease :: "world \<Rightarrow> string \<Rightarrow> string io" where
  "fetchLatestRelease w githubToken =
     tryCatch
       (let endpoint = RELEASES_API_URL @ ''/latest'';
            headers = (if githubToken \<noteq> [] then [(''Authorization'', ''Bearer '' @ githubToken)] else [])
        in andThen (call (Fetch endpoint headers) (fetchOutcome w endpoint headers)) (\<lambda>resp.
             if \<not> ok resp then
               andThen (([], bodyText resp) :: string io) (\<lambda>errorBody.
                 throwError (''HTTP Error: '' @ status resp @ '' - '' @ errorBody))
             else
               andThen (([], json resp) :: string option option io) (\<lambda>data.
                 case data of
                   None \<Rightarrow> throwError ''Invalid response format or no releases found''
                 | Some None \<Rightarrow> throwError ''Invalid response format or no releases found''
                 | Some (Some tag_name) \<Rightarrow>
                     if tag_name = [] then throwError ''Invalid response format or no releases found''
                     else succeed (cleanVersionFromTag tag_name))))
       (\<lambda>msg. throwError (''Failed to fetch release information from '' @ RELEASES_API_URL @ '': '' @ msg))"

section \<open>types.ts\<close>

record TaskOptions =
  version :: string
  skipCache :: bool
  githubToken :: string

section \<open>installer.ts\<close>

definition getPlatform :: "world \<Rightarrow> string io" where
  "getPlatform w =
     (case OS_MAPPING (platform w) of
        None \<Rightarrow> logAndFail (''Unsupported platform: '' @ platform w)
      | Some mappedPlatform \<Rightarrow>
          if mappedPlatform = [] then logAndFail (''Unsupported platform: '' @ platform w)
          else succeed mappedPlatform)"

definition getArchitecture :: "world \<Rightarrow> string io" where
  "getArchitecture w =
     (case ARCH_MAPPING (arch w) of
        None \<Rightarrow> logAndFail (''Unsupported architecture: '' @ arch w)
      | Some mappedArch \<Rightarrow>
          if mappedArch = [] then logAndFail (''Unsupported architecture: '' @ arch w)
          else succeed mappedArch)"

definition getDownloadUrl :: "world \<Rightarrow> string \<Rightarrow> string io" where
  "getDownloadUrl w ver =
     andThen (getPlatform w) (\<lambda>mappedPlatform.
     andThen (getArchitecture w) (\<lambda>mappedArch.
       let extension = (if platform w = ''win32'' then ''zip'' else ''tar.gz'')
       in succeed (RELEASES_URL @ ''/v'' @ ver @ ''/task_'' @ mappedPlatform @ ''_'' @ mappedArch
                   @ ''.'' @ extension)))"

text \<open>A nullable string is truthy when it is neither \<open>null\<close> nor empty.\<close>

definition truthy :: "string option \<Rightarrow> bool" where
  "truthy v = (case v of None \<Rightarrow> False | Some s \<Rightarrow> s \<noteq> [])"

definition checkDirectory :: "world \<Rightarrow> string \<Rightarrow> string option io" where
  "checkDirectory w dirPath =
     (let execPath = pathJoin w dirPath (''task'' @ EXE_EXTENSION w)
      in andThen (call (ExistsSync execPath) (Inr (existsOutcome w execPath))) (\<lambda>found.
           succeed (if found then Some execPath else None)))"

text \<open>
  The \<open>for\<close> loop of \<open>findExecutable\<close> over the entries of the extraction root:
  \<open>Some p\<close> when the loop returns \<open>p\<close> from the function, \<open>None\<close> when it runs to its end.
\<close>

primrec searchEntries :: "world \<Rightarrow> string \<Rightarrow> string list \<Rightarrow> string option io" where
  "searchEntries w extractedPath [] = succeed None"
| "searchEntries w extractedPath (entry # entries) =
     (let entryPath = pathJoin w extractedPath entry
      in andThen (call (StatSync entryPath) (statIsDirectory w entryPath)) (\<lambda>isDir.
           if isDir then
             andThen (checkDirectory w entryPath) (\<lambda>execPath.
               if truthy execPath then succeed execPath
               else searchEntries w extractedPath entries)
           else searchEntries w extractedPath entries))"

definition findExecutable :: "world \<Rightarrow> string \<Rightarrow> string io" where
  "findExecutable w extractedPath =
     (let executableName = ''task'' @ EXE_EXTENSION w;
          search =
            andThen
              (tryCatch
                 (andThen (call (ReaddirSync extractedPath) (readdirOutcome w extractedPath))
                    (searchEntries w extractedPath))
                 (\<lambda>errorMessage.
                    andThen (emit (Warning (''Error encountered while searching for executable. Error: ''
                                            @ errorMessage)))
                      (\<lambda>_. succeed None)))
              (\<lambda>found. case found of
                 Some execPath \<Rightarrow> succeed execPath
               | None \<Rightarrow>
                   andThen (emit (Warning (''Executable not found: '' @ executableName
                                           @ '' in directory: '' @ extractedPath)))
                     (\<lambda>_. succeed []))
      in andThen (checkDirectory w extractedPath) (\<lambda>directPath.
           case directPath of
             Some p \<Rightarrow> if p \<noteq> [] then succeed p else search
           | None \<Rightarrow> search))"

text \<open>The conditional expression of \<open>installTask\<close> that settles the version to download.\<close>

definition resolveVersion :: "world \<Rightarrow> TaskOptions \<Rightarrow> string io" where
  "resolveVersion w options =
     (if version options = ''latest'' then
        tryCatch (fetchLatestRelease w (githubToken options))
          (\<lambda>errorMessage.
             andThen (emit (ErrorLog (''Failed to retrieve the latest version: '' @ errorMessage)))
               (\<lambda>_. throwError (''Unable to retrieve the latest version. Please specify a specific version instead of ''
                                 @ [CHR 0x27] @ ''latest'' @ [CHR 0x27] @ ''.'')))
      else succeed (version options))"

text \<open>The extraction step of \<open>installTask\<close>, dispatched on the extension of the URL.\<close>

definition extractArchive :: "world \<Rightarrow> string \<Rightarrow> string \<Rightarrow> string io" where
  "extractArchive w downloadUrl downloadedPath =
     tryCatch
       (if endsWith downloadUrl ''.zip'' then
          call (ExtractZip downloadedPath) (extractZipOutcome w downloadedPath)
        else if endsWith downloadUrl ''.tar.gz'' then
          call (ExtractTar downloadedPath) (extractTarOutcome w downloadedPath)
        else throwError (''Unsupported archive format encountered: '' @ downloadUrl))
       (\<lambda>errorMessage. throwError (''Extraction failed. Error: '' @ errorMessage))"

definition installTask :: "world \<Rightarrow> TaskOptions \<Rightarrow> string io" where
  "installTask w options =
     tryCatch
       (andThen (resolveVersion w options) (\<lambda>ver.
        andThen (getDownloadUrl w ver) (\<lambda>downloadUrl.
        andThen (call (DownloadTool downloadUrl) (downloadOutcome w downloadUrl)) (\<lambda>downloadedPath.
        andThen (extractArchive w downloadUrl downloadedPath) (\<lambda>extractedPath.
        andThen (findExecutable w extractedPath) (\<lambda>taskPath.
          if taskPath = [] then
            throwError (''Executable not found in extracted directory: '' @ extractedPath)
          else
            andThen (if platform w \<noteq> ''win32''
                     then call (ChmodSync taskPath) (chmodOutcome w taskPath)
                     else succeed ())
              (\<lambda>_. succeed taskPath)))))))
       (\<lambda>errorMessage.
          andThen (emit (ErrorLog (''Task installation failed. Error: '' @ errorMessage)))
            (\<lambda>_. logAndFail (''Installation process terminated. Error: '' @ errorMessage)))"

section \<open>cache.ts\<close>

definition getCacheKey :: "world \<Rightarrow> string \<Rightarrow> string" where
  "getCacheKey w ver = ''task-runner-'' @ ver @ ''-'' @ platform w @ ''-'' @ arch w"

definition getTaskExecutableName :: "world \<Rightarrow> string" where
  "getTaskExecutableName w = ''task'' @ (if platform w = ''win32'' then ''.exe'' else [])"

definition restoreCache :: "world \<Rightarrow> string \<Rightarrow> string io" where
  "restoreCache w ver =
     (let cacheDir = getCacheDirectory w;
          cacheKey = getCacheKey w ver;
          executableName = getTaskExecutableName w
      in tryCatch
           (andThen (call (CacheRestore [cacheDir] cacheKey) (cacheRestoreOutcome w [cacheDir] cacheKey))
              (\<lambda>hitKey.
                 if \<not> truthy hitKey then succeed []
                 else
                   let taskPath = pathJoin w cacheDir executableName
                   in andThen (call (ExistsSync taskPath) (Inr (existsOutcome w taskPath))) (\<lambda>found.
                        if \<not> found then
                          andThen (emit (Warning (''Cache was hit but Task was not found at '' @ taskPath)))
                            (\<lambda>_. succeed [])
                        else
                          andThen (if platform w \<noteq> ''win32''
                                   then call (ChmodSync taskPath) (chmodOutcome w taskPath)
                                   else succeed ())
                            (\<lambda>_. succeed taskPath))))
           (\<lambda>errorMessage.
              andThen (emit (Warning (''Failed to restore from cache: '' @ errorMessage)))
                (\<lambda>_. succeed [])))"

definition saveCache :: "world \<Rightarrow> string \<Rightarrow> string \<Rightarrow> unit io" where
  "saveCache w taskPath ver =
     (let cacheDir = getCacheDirectory w;
          cacheKey = getCacheKey w ver;
          executableName = getTaskExecutableName w
      in tryCatch
           (andThen (call (MkdirSync cacheDir) (mkdirOutcome w cacheDir)) (\<lambda>_.
              let destPath = pathJoin w cacheDir executableName
              in andThen (if taskPath \<noteq> destPath
                          then call (CopyFileSync taskPath destPath) (copyFileOutcome w taskPath destPath)
                          else succeed ())
                   (\<lambda>_. call (CacheSave [cacheDir] cacheKey) (cacheSaveOutcome w [cacheDir] cacheKey))))
           (\<lambda>errorMessage.
              andThen (emit (Warning (''Failed to save Task to cache: '' @ errorMessage)))
                (\<lambda>_. emit (Warning (''Failed to save cache: '' @ errorMessage)))))"

section \<open>main.ts\<close>

definition getTaskOptions :: "world \<Rightarrow> TaskOptions io" where
  "getTaskOptions w =
     (let versionFromFile = inputs w ''version-from-file'';
          versionInput = inputs w ''version''
      in if versionFromFile \<noteq> [] \<and> versionInput \<noteq> [] \<and> versionInput \<noteq> ''latest'' then
           throwError ''Both version and version-from-file inputs cannot be used together. Please specify only one.''
         else
           andThen
             (if versionFromFile \<noteq> [] then
                tryCatch
                  (andThen (call (ReadFileSync versionFromFile) (readFileOutcome w versionFromFile))
                     (\<lambda>fileContent.
                        succeed (if fileContent \<noteq> [] then trim fileContent else ''latest'')))
                  (\<lambda>errorMessage.
                     throwError (''Failed to read version from file '' @ versionFromFile @ '': ''
                                 @ errorMessage))
              else if versionInput \<noteq> [] then succeed versionInput
              else succeed ''latest'')
             (\<lambda>ver. succeed \<lparr>version = ver,
                              skipCache = (inputs w ''skip-cache'' = ''true''),
                              githubToken = inputs w ''github-token''\<rparr>))"

definition isTaskInstalled :: "world \<Rightarrow> bool io" where
  "isTaskInstalled w =
     tryCatch
       (andThen (call (Exec ''which'' [''task'']) (whichProbe w)) (\<lambda>_. succeed True))
       (\<lambda>_. succeed False)"

definition verifyInstallation :: "world \<Rightarrow> unit io" where
  "verifyInstallation w =
     tryCatch
       (andThen (call (Exec ''which'' [''task'']) (whichVerify w)) (\<lambda>taskPath.
          let execPath = trim taskPath
          in andThen (call (Exec execPath [''--version''])
                        (case versionQuery w execPath of
                           (captured, None) \<Rightarrow> Inr captured
                         | (captured, Some rejection) \<Rightarrow> Inl rejection)) (\<lambda>output.
               if length (trim output) = 0 then
                 throwError ''Task verification failed: No version returned from Task''
               else succeed ())))
       (\<lambda>errorMessage.
          andThen (emit (ErrorLog (''Task verification error: '' @ errorMessage)))
            (\<lambda>_. throwError (''Task verification failed: '' @ errorMessage)))"

text \<open>
  The function \<open>run\<close> calls when the tool is not installed yet: restore from the cache,
  else install and save.
\<close>

definition restoreOrInstall :: "world \<Rightarrow> TaskOptions \<Rightarrow> string io" where
  "restoreOrInstall w options =
     andThen (if \<not> skipCache options then restoreCache w (version options) else succeed [])
       (\<lambda>cachedPath.
          if cachedPath \<noteq> [] then succeed cachedPath
          else
            andThen (installTask w options) (\<lambda>installedPath.
            andThen (if \<not> skipCache options
                     then saveCache w installedPath (version options)
                     else succeed ())
              (\<lambda>_. succeed installedPath)))"

text \<open>
  \<open>value?.trim() || ''\<close> on the value of an entry: calling \<open>trim\<close> on a value that
  has no such method throws a \<open>TypeError\<close>. It is thrown inside the \<open>try\<close> block of
  the YAML format, whose handler drops the message.
\<close>

definition trimmedValueOf :: "yamlScalar \<Rightarrow> string io" where
  "trimmedValueOf v =
     (case v of
        YString s \<Rightarrow> succeed (trim s)
      | YNull \<Rightarrow> succeed []
      | YOther \<Rightarrow> throwError ''value.trim is not a function'')"

text \<open>Setting the variable in the process environment and exporting it to later steps.\<close>

definition exportVar :: "world \<Rightarrow> string \<Rightarrow> string \<Rightarrow> unit io" where
  "exportVar w trimmedKey trimmedValue =
     andThen (call (SetEnv trimmedKey trimmedValue) (setEnvOutcome w trimmedKey trimmedValue))
       (\<lambda>_. call (ExportVariable trimmedKey trimmedValue) (exportOutcome w trimmedKey trimmedValue))"

text \<open>The loop of \<open>processEnvVars\<close> over the entries of the parsed YAML map.\<close>

primrec exportEntries :: "world \<Rightarrow> (string \<times> yamlScalar) list \<Rightarrow> unit io" where
  "exportEntries w [] = succeed ()"
| "exportEntries w (entry # entries) =
     andThen
       (if fst entry \<noteq> [] then
          andThen (trimmedValueOf (snd entry)) (exportVar w (trim (fst entry)))
        else emit (Warning (''Invalid environment variable format: '' @ fst entry)))
       (\<lambda>_. exportEntries w entries)"

text \<open>The loop of \<open>processEnvVars\<close> over the trimmed, non-empty lines of the input.\<close>

primrec exportLines :: "world \<Rightarrow> string list \<Rightarrow> unit io" where
  "exportLines w [] = succeed ()"
| "exportLines w (line # lines) =
     andThen
       (case matchKeyValue line of
          Some (key, value) \<Rightarrow>
            if key \<noteq> [] then exportVar w (trim key) (trim value) else succeed ()
        | None \<Rightarrow> emit (Warning (''Invalid variable format: '' @ line)))
       (\<lambda>_. exportLines w lines)"

definition processEnvVars :: "world \<Rightarrow> string \<Rightarrow> bool io" where
  "processEnvVars w inputValue =
     (if inputValue = [] \<or> trim inputValue = [] then succeed False
      else
        tryCatch
          (andThen
             (tryCatch
                (andThen (([], yamlLoad w inputValue) :: yamlValue io) (\<lambda>envVars.
                   case envVars of
                     YEntries entries \<Rightarrow> andThen (exportEntries w entries) (\<lambda>_. succeed True)
                   | YNotObject \<Rightarrow> succeed False))
                (\<lambda>yamlError. succeed False))
             (\<lambda>finished. if finished then succeed True
                      else andThen
                             (exportLines w (filter (\<lambda>line. line \<noteq> [])
                                               (map trim (splitLines inputValue))))
                             (\<lambda>_. succeed True)))
          (\<lambda>errorMessage.
             andThen (emit (Warning (''Error processing variables: '' @ errorMessage)))
               (\<lambda>_. succeed False)))"

definition run :: "world \<Rightarrow> unit io" where
  "run w =
     tryCatch
       (andThen (getTaskOptions w) (\<lambda>options.
        andThen (let envVarsInput = inputs w ''vars''
                 in if envVarsInput \<noteq> []
                    then andThen (processEnvVars w envVarsInput) (\<lambda>_. succeed ())
                    else succeed ()) (\<lambda>_.
        andThen (isTaskInstalled w) (\<lambda>taskAlreadyInstalled.
        andThen (if \<not> taskAlreadyInstalled then restoreOrInstall w options
                 else andThen (call (Exec ''which'' [''task'']) (whichLocate w))
                        (\<lambda>stdout. succeed (trim stdout))) (\<lambda>taskPath.
        andThen (emit (AddPath (dirnameOutcome w taskPath))) (\<lambda>_.
        andThen (emit (SetOutput ''task-path'' taskPath)) (\<lambda>_.
        verifyInstallation w)))))))
       (\<lambda>errorMessage. emit (SetFailed (''Task setup failed: '' @ errorMessage)))"

section \<open>Vocabulary of the statements\<close>

text \<open>A directory holds the executable when the expected file name exists right inside it.\<close>

definition holdsExecutable :: "world \<Rightarrow> string \<Rightarrow> bool" where
  "holdsExecutable w dir = existsOutcome w (pathJoin w dir (''task'' @ EXE_EXTENSION w))"

text \<open>An entry of the extraction root matches when it is a directory holding the executable.\<close>

definition matchingEntry :: "world \<Rightarrow> string \<Rightarrow> string \<Rightarrow> bool" where
  "matchingEntry w root entry =
     (statIsDirectory w (pathJoin w root entry) = Inr True
      \<and> holdsExecutable w (pathJoin w root entry))"

text \<open>
  The search passes an entry when \<open>statSync\<close> succeeds on it and it is not a directory
  holding the executable.
\<close>

definition passedEntry :: "world \<Rightarrow> string \<Rightarrow> string \<Rightarrow> bool" where
  "passedEntry w root entry =
     (statIsDirectory w (pathJoin w root entry) = Inr False
      \<or> (statIsDirectory w (pathJoin w root entry) = Inr True
          \<and> \<not> holdsExecutable w (pathJoin w root entry)))"

text \<open>The calls that leave the runner: release index, download, cache backend.\<close>

fun isNetworkCall :: "event \<Rightarrow> bool" where
  "isNetworkCall (Fetch endpoint headers) = True"
| "isNetworkCall (DownloadTool url) = True"
| "isNetworkCall (CacheRestore paths key) = True"
| "isNetworkCall (CacheSave paths key) = True"
| "isNetworkCall ev = False"





section \<open>Example hosts\<close>

text \<open>
  A Linux runner on x64 where the tool is not installed, the cache misses, the release
  index cannot be reached and the file system is empty; downloads and extraction succeed.
\<close>

definition posixWorld :: world where
  "posixWorld = \<lparr>platform = ''linux'', arch = ''x64'', tmpdir = ''/tmp'',
     joinOutcome = (\<lambda>a b. a @ ''/'' @ b), dirnameOutcome = (\<lambda>p. p),
     inputs = (\<lambda>_. []), readFileOutcome = (\<lambda>_. Inl ''ENOENT''),
     existsOutcome = (\<lambda>_. False), readdirOutcome = (\<lambda>_. Inl ''ENOENT''),
     statIsDirectory = (\<lambda>_. Inl ''ENOENT''), chmodOutcome = (\<lambda>_. Inr ()),
     mkdirOutcome = (\<lambda>_. Inr ()), copyFileOutcome = (\<lambda>_ _. Inr ()),
     fetchOutcome = (\<lambda>_ _. Inl ''fetch failed''),
     downloadOutcome = (\<lambda>_. Inr ''/tmp/dl''), extractZipOutcome = (\<lambda>_. Inr ''/tmp/x''),
     extractTarOutcome = (\<lambda>_. Inr ''/tmp/x''),
     cacheRestoreOutcome = (\<lambda>_ _. Inr None), cacheSaveOutcome = (\<lambda>_ _. Inr ()),
     whichProbe = Inl ''not found'', whichLocate = Inl ''not found'',
     whichVerify = Inr ''/tmp/x/task'', versionQuery = (\<lambda>_. (''3.43.1'', None)),
     yamlLoad = (\<lambda>_. Inr YNotObject), setEnvOutcome = (\<lambda>_ _. Inr ()),
     exportOutcome = (\<lambda>_ _. Inr ())\<rparr>"

text \<open>The workflow sets \<open>version: v3.43.1\<close> and nothing else.\<close>

definition explicitVWorld :: world where
  "explicitVWorld = posixWorld\<lparr>inputs := (\<lambda>n. if n = ''version'' then ''v3.43.1'' else [])\<rparr>"

text \<open>The workflow names a version file; the file holds a single line feed.\<close>

definition blankFileWorld :: world where
  "blankFileWorld = posixWorld\<lparr>
     inputs := (\<lambda>n. if n = ''version-from-file'' then ''.task-version'' else []),
     readFileOutcome := (\<lambda>_. Inr [CHR 0x0A])\<rparr>"

text \<open>The same with a file of zero length.\<close>

definition emptyFileWorld :: world where
  "emptyFileWorld = posixWorld\<lparr>
     inputs := (\<lambda>n. if n = ''version-from-file'' then ''.task-version'' else []),
     readFileOutcome := (\<lambda>_. Inr [])\<rparr>"

text \<open>The same with a file holding the line \<open>v3.43.1\<close>.\<close>

definition vFileWorld :: world where
  "vFileWorld = posixWorld\<lparr>
     inputs := (\<lambda>n. if n = ''version-from-file'' then ''.task-version'' else []),
     readFileOutcome := (\<lambda>_. Inr (''v3.43.1'' @ [CHR 0x0A]))\<rparr>"

text \<open>A Windows runner on x64.\<close>

definition win32World :: world where
  "win32World = posixWorld\<lparr>platform := ''win32''\<rparr>"

text \<open>The release index answers with the tag \<open>v3.43.1\<close>.\<close>

definition latestWorld :: world where
  "latestWorld = posixWorld\<lparr>
     fetchOutcome := (\<lambda>_ _. Inr \<lparr>ok = True, status = ''200'', bodyText = Inr [],
                                  json = Inr (Some (Some ''v3.43.1''))\<rparr>)\<rparr>"

text \<open>The same on FreeBSD, a platform outside the mapping.\<close>

definition freebsdWorld :: world where
  "freebsdWorld = latestWorld\<lparr>platform := ''freebsd''\<rparr>"

text \<open>Both a version file and an explicit version are set.\<close>

definition conflictWorld :: world where
  "conflictWorld = posixWorld\<lparr>
     inputs := (\<lambda>n. if n = ''version-from-file'' then ''version.txt''
                     else if n = ''version'' then ''3.43.1'' else [])\<rparr>"

text \<open>A version file holding \<open>3.42.0\<close> together with \<open>version: latest\<close>.\<close>

definition fileAndLatestWorld :: world where
  "fileAndLatestWorld = posixWorld\<lparr>
     inputs := (\<lambda>n. if n = ''version-from-file'' then ''.task-version''
                     else if n = ''version'' then ''latest'' else []),
     readFileOutcome := (\<lambda>_. Inr (''3.42.0'' @ [CHR 0x0A]))\<rparr>"

text \<open>The archive holds the executable at its top level.\<close>

definition rootWorld :: world where
  "rootWorld = posixWorld\<lparr>existsOutcome := (\<lambda>p. p = ''/tmp/x/task'')\<rparr>"

text \<open>The archive holds a file and two directories, each directory with an executable.\<close>

definition nestedWorld :: world where
  "nestedWorld = posixWorld\<lparr>
     readdirOutcome := (\<lambda>p. if p = ''/tmp/x'' then Inr [''README.md'', ''task_linux_amd64'', ''other'']
                            else Inl ''ENOENT''),
     statIsDirectory := (\<lambda>p. Inr (p \<noteq> ''/tmp/x/README.md'')),
     existsOutcome := (\<lambda>p. p = ''/tmp/x/task_linux_amd64/task'' \<or> p = ''/tmp/x/other/task'')\<rparr>"

text \<open>The archive holds a file and a directory, and no executable.\<close>

definition docsOnlyWorld :: world where
  "docsOnlyWorld = posixWorld\<lparr>
     readdirOutcome := (\<lambda>_. Inr [''README.md'', ''docs'']),
     statIsDirectory := (\<lambda>p. Inr (p = ''/tmp/x/docs''))\<rparr>"

text \<open>
  The archive holds a file, a dangling symbolic link and a directory with the
  executable; \<open>statSync\<close> throws on the link.
\<close>

definition danglingWorld :: world where
  "danglingWorld = posixWorld\<lparr>
     readdirOutcome := (\<lambda>_. Inr [''LICENSE'', ''broken-link'', ''bin'']),
     statIsDirectory := (\<lambda>p. if p = ''/tmp/x/LICENSE'' then Inr False
                             else if p = ''/tmp/x/broken-link'' then Inl ''ENOENT: no such file or directory''
                             else Inr True),
     existsOutcome := (\<lambda>p. p = ''/tmp/x/bin/task'')\<rparr>"

text \<open>The cache backend rejects every request.\<close>

definition cacheDownWorld :: world where
  "cacheDownWorld = posixWorld\<lparr>
     cacheRestoreOutcome := (\<lambda>_ _. Inl ''Cache service unavailable''),
     cacheSaveOutcome := (\<lambda>_ _. Inl ''Cache save error'')\<rparr>"

text \<open>The cache backend reports a hit and restores nothing.\<close>

definition hollowHitWorld :: world where
  "hollowHitWorld = posixWorld\<lparr>cacheRestoreOutcome := (\<lambda>_ key. Inr (Some key))\<rparr>"

text \<open>The cache backend restores the executable, whose permission bits cannot be set.\<close>

definition chmodFailsWorld :: world where
  "chmodFailsWorld = posixWorld\<lparr>
     cacheRestoreOutcome := (\<lambda>_ key. Inr (Some key)),
     existsOutcome := (\<lambda>p. p = ''/tmp/task-runner/task''),
     chmodOutcome := (\<lambda>_. Inl ''EPERM'')\<rparr>"

text \<open>The cache directory cannot be created.\<close>

definition readOnlyTmpWorld :: world where
  "readOnlyTmpWorld = posixWorld\<lparr>mkdirOutcome := (\<lambda>_. Inl ''EACCES'')\<rparr>"

text \<open>Copying the executable into the cache directory fails.\<close>

definition copyFailsWorld :: world where
  "copyFailsWorld = posixWorld\<lparr>copyFileOutcome := (\<lambda>_ _. Inl ''Copy error'')\<rparr>"

text \<open>The installed tool prints a single line feed when asked for its version.\<close>

definition silentToolWorld :: world where
  "silentToolWorld = posixWorld\<lparr>versionQuery := (\<lambda>_. ([CHR 0x0A], None))\<rparr>"


text \<open>
  The archive holds a dangling symbolic link, listed first, and a directory with the
  executable.
\<close>

definition linkFirstWorld :: world where
  "linkFirstWorld = posixWorld\<lparr>
     readdirOutcome := (\<lambda>_. Inr [''latest'', ''task_linux_amd64'']),
     statIsDirectory := (\<lambda>p. if p = ''/tmp/x/latest'' then Inl ''ENOENT: no such file or directory''
                             else Inr True),
     existsOutcome := (\<lambda>p. p = ''/tmp/x/task_linux_amd64/task'')\<rparr>"

text \<open>The tool is not on the search path when the installation is verified.\<close>

definition notOnPathWorld :: world where
  "notOnPathWorld = posixWorld\<lparr>whichVerify := Inl ''The process which failed with exit code 1''\<rparr>"

text \<open>The installed file cannot be executed: nothing is printed and \<open>exec\<close> rejects.\<close>

definition brokenBinaryWorld :: world where
  "brokenBinaryWorld = posixWorld\<lparr>
     versionQuery := (\<lambda>_. ([], Some ''The process /tmp/x/task failed with exit code 126''))\<rparr>"

text \<open>The installed tool prints its version and exits with a non-zero code.\<close>

definition failingToolWorld :: world where
  "failingToolWorld = posixWorld\<lparr>
     versionQuery := (\<lambda>_. (''Task version: 3.43.1'' @ [CHR 0x0A],
                            Some ''The process /tmp/x/task failed with exit code 1''))\<rparr>"


section \<open>Basic facts\<close>

lemma andThen_Inr: "andThen (evs, Inr x) f = (evs @ fst (f x), snd (f x))"
  by (simp add: andThen_def)

lemma andThen_Inl: "andThen (evs, Inl e) f = (evs, Inl e)"
  by (simp add: andThen_def)

lemma tryCatch_Inr: "tryCatch (evs, Inr x) h = (evs, Inr x)"
  by (simp add: tryCatch_def)

lemma tryCatch_Inl: "tryCatch (evs, Inl e) h = (evs @ fst (h e), snd (h e))"
  by (simp add: tryCatch_def)

lemmas io_simps = andThen_Inr andThen_Inl tryCatch_Inr tryCatch_Inl succeed_def throwError_def
  emit_def call_def

lemma andThen_pure: "andThen ([], Inr x) f = f x"
  by (simp add: andThen_def)

lemma tryCatch_total:
  "(\<And>msg. \<exists>x. snd (h msg) = Inr x) \<Longrightarrow> \<exists>x. snd (tryCatch m h) = Inr x"
  by (cases m; cases "snd m") (auto simp: tryCatch_def)

lemma fst_tryCatch_andThen_call:
  "\<exists>rest. fst (tryCatch (andThen (call ev out) f) h) = ev # rest"
  by (cases out) (simp_all add: call_def andThen_def tryCatch_def split: sum.splits)

lemma trim_lf: "trim [CHR 0x0A] = []"
  by code_simp

lemma trim_v: "trim (''v3.43.1'' @ [CHR 0x0A]) = ''v3.43.1''"
  by code_simp

lemma OS_MAPPING_nonempty: "OS_MAPPING p = Some os \<Longrightarrow> os \<noteq> []"
  by (auto simp: OS_MAPPING_def split: if_splits)

lemma ARCH_MAPPING_nonempty: "ARCH_MAPPING p = Some a \<Longrightarrow> a \<noteq> []"
  by (auto simp: ARCH_MAPPING_def split: if_splits)

lemma getDownloadUrl_supported:
  assumes "OS_MAPPING (platform w) = Some os" and "ARCH_MAPPING (arch w) = Some a"
  shows "getDownloadUrl w v =
           ([], Inr (RELEASES_URL @ ''/v'' @ v @ ''/task_'' @ os @ ''_'' @ a @ ''.''
                     @ (if platform w = ''win32'' then ''zip'' else ''tar.gz'')))"
  using assms OS_MAPPING_nonempty[OF assms(1)] ARCH_MAPPING_nonempty[OF assms(2)]
  by (simp add: getDownloadUrl_def getPlatform_def getArchitecture_def io_simps)

lemma getDownloadUrl_unsupported:
  assumes "OS_MAPPING (platform w) = None \<or> ARCH_MAPPING (arch w) = None"
  shows "\<exists>msg. getDownloadUrl w v = ([SetFailed msg], Inl msg)"
proof (cases "OS_MAPPING (platform w)")
  case None
  then show ?thesis by (simp add: getDownloadUrl_def getPlatform_def logAndFail_def io_simps)
next
  case (Some os)
  then have "ARCH_MAPPING (arch w) = None" using assms by simp
  then show ?thesis using Some
    by (simp add: getDownloadUrl_def getPlatform_def getArchitecture_def logAndFail_def io_simps)
qed

lemma resolveVersion_explicit:
  "version opts \<noteq> ''latest'' \<Longrightarrow> resolveVersion w opts = ([], Inr (version opts))"
  by (simp add: resolveVersion_def io_simps)

lemma resolveVersion_events:
  "ev \<in> set (fst (resolveVersion w opts)) \<Longrightarrow>
     (\<exists>endpoint headers. ev = Fetch endpoint headers) \<or> (\<exists>s. ev = ErrorLog s)"
  by (cases "fetchOutcome w (RELEASES_API_URL @ ''/latest'')
               (if githubToken opts \<noteq> [] then [(''Authorization'', ''Bearer '' @ githubToken opts)] else [])")
     (auto simp: resolveVersion_def fetchLatestRelease_def Let_def io_simps andThen_def tryCatch_def
           split: if_splits sum.splits option.splits)

lemma installTask_download_first:
  assumes "resolveVersion w opts = ([], Inr v)" and "getDownloadUrl w v = ([], Inr url)"
  shows "\<exists>rest. fst (installTask w opts) = DownloadTool url # rest"
  unfolding installTask_def assms andThen_pure
  by (rule fst_tryCatch_andThen_call)

lemma installTask_unsupported:
  assumes "OS_MAPPING (platform w) = None \<or> ARCH_MAPPING (arch w) = None"
  shows "\<exists>msg msg'. installTask w opts =
           (fst (resolveVersion w opts) @ [SetFailed msg', ErrorLog (''Task installation failed. Error: '' @ msg),
               SetFailed (''Installation process terminated. Error: '' @ msg)],
            Inl (''Installation process terminated. Error: '' @ msg))
         \<or> installTask w opts =
           (fst (resolveVersion w opts) @ [ErrorLog (''Task installation failed. Error: '' @ msg),
               SetFailed (''Installation process terminated. Error: '' @ msg)],
            Inl (''Installation process terminated. Error: '' @ msg))"
proof -
  obtain evs r where rv: "resolveVersion w opts = (evs, r)" by (cases "resolveVersion w opts")
  show ?thesis
  proof (cases r)
    case (Inl m)
    then show ?thesis using rv by (simp add: installTask_def logAndFail_def io_simps)
  next
    case (Inr ver)
    obtain msg where "getDownloadUrl w ver = ([SetFailed msg], Inl msg)"
      using getDownloadUrl_unsupported[OF assms] by blast
    then show ?thesis using rv Inr by (simp add: installTask_def logAndFail_def io_simps)
  qed
qed

lemma pathJoin_nonempty: "pathJoin w a b \<noteq> []"
  by (simp add: pathJoin_def Let_def)

lemma checkDirectory_eq:
  "checkDirectory w dir =
     ([ExistsSync (pathJoin w dir (''task'' @ EXE_EXTENSION w))],
      Inr (if holdsExecutable w dir then Some (pathJoin w dir (''task'' @ EXE_EXTENSION w)) else None))"
  by (simp add: checkDirectory_def holdsExecutable_def Let_def io_simps)

lemma searchEntries_match:
  "matchingEntry w root e \<Longrightarrow>
     searchEntries w root (e # rest) =
       ([StatSync (pathJoin w root e),
         ExistsSync (pathJoin w (pathJoin w root e) (''task'' @ EXE_EXTENSION w))],
        Inr (Some (pathJoin w (pathJoin w root e) (''task'' @ EXE_EXTENSION w))))"
  by (simp add: matchingEntry_def checkDirectory_eq Let_def io_simps truthy_def pathJoin_nonempty)

lemma searchEntries_stat_error:
  "statIsDirectory w (pathJoin w root e) = Inl m \<Longrightarrow>
     searchEntries w root (e # rest) = ([StatSync (pathJoin w root e)], Inl m)"
  by (simp add: Let_def io_simps)

lemma searchEntries_passed_step:
  "passedEntry w root e \<Longrightarrow> snd (searchEntries w root (e # rest)) = snd (searchEntries w root rest)"
  by (auto simp: passedEntry_def checkDirectory_eq Let_def io_simps truthy_def)

lemma searchEntries_passed:
  "\<forall>e \<in> set pre. passedEntry w root e \<Longrightarrow>
     snd (searchEntries w root (pre @ rest)) = snd (searchEntries w root rest)"
proof (induction pre)
  case Nil
  then show ?case by simp
next
  case (Cons e pre)
  then have "snd (searchEntries w root (e # (pre @ rest))) = snd (searchEntries w root (pre @ rest))"
    using searchEntries_passed_step by (simp del: searchEntries.simps)
  with Cons show ?case by (simp del: searchEntries.simps)
qed

lemma searchEntries_no_match:
  "\<forall>e \<in> set es. \<not> matchingEntry w root e \<Longrightarrow> snd (searchEntries w root es) \<noteq> Inr (Some p)"
proof (induction es)
  case Nil
  then show ?case by (simp add: io_simps)
next
  case (Cons e es)
  then have ih: "snd (searchEntries w root es) \<noteq> Inr (Some p)" by simp
  from Cons.prems have nm: "\<not> matchingEntry w root e" by simp
  show ?case
  proof (cases "statIsDirectory w (pathJoin w root e)")
    case (Inl m)
    then show ?thesis by (simp add: searchEntries_stat_error del: searchEntries.simps)
  next
    case (Inr d)
    then have "passedEntry w root e"
      using nm by (cases d) (simp_all add: passedEntry_def matchingEntry_def)
    then show ?thesis using ih searchEntries_passed_step by (simp del: searchEntries.simps)
  qed
qed

lemma searchEntries_events:
  "ev \<in> set (fst (searchEntries w root es)) \<Longrightarrow>
     (\<exists>e \<in> set es. ev = StatSync (pathJoin w root e)
        \<or> ev = ExistsSync (pathJoin w (pathJoin w root e) (''task'' @ EXE_EXTENSION w)))"
proof (induction es)
  case Nil
  then show ?case by (simp add: io_simps)
next
  case (Cons e es)
  show ?case
  proof (cases "statIsDirectory w (pathJoin w root e)")
    case (Inl m)
    then show ?thesis using Cons.prems by (simp add: searchEntries_stat_error del: searchEntries.simps)
  next
    case (Inr d)
    then show ?thesis using Cons
      by (cases d) (auto simp: checkDirectory_eq Let_def io_simps truthy_def split: if_splits)
  qed
qed

lemma findExecutable_direct:
  "holdsExecutable w root \<Longrightarrow>
     findExecutable w root =
       ([ExistsSync (pathJoin w root (''task'' @ EXE_EXTENSION w))],
        Inr (pathJoin w root (''task'' @ EXE_EXTENSION w)))"
  by (simp add: findExecutable_def checkDirectory_eq Let_def io_simps pathJoin_nonempty)

lemma findExecutable_listed:
  assumes "\<not> holdsExecutable w root" and "readdirOutcome w root = Inr entries"
  shows "findExecutable w root =
     ([ExistsSync (pathJoin w root (''task'' @ EXE_EXTENSION w)), ReaddirSync root]
        @ fst (searchEntries w root entries)
        @ (case snd (searchEntries w root entries) of
             Inl m \<Rightarrow> [Warning (''Error encountered while searching for executable. Error: '' @ m),
                       Warning (''Executable not found: '' @ ''task'' @ EXE_EXTENSION w
                                @ '' in directory: '' @ root)]
           | Inr None \<Rightarrow> [Warning (''Executable not found: '' @ ''task'' @ EXE_EXTENSION w
                                    @ '' in directory: '' @ root)]
           | Inr (Some p) \<Rightarrow> []),
      Inr (case snd (searchEntries w root entries) of Inr (Some p) \<Rightarrow> p | _ \<Rightarrow> []))"
proof -
  obtain evs r where s: "searchEntries w root entries = (evs, r)"
    by (cases "searchEntries w root entries")
  show ?thesis
  proof (cases r)
    case (Inl m)
    with s assms show ?thesis
      by (simp add: findExecutable_def checkDirectory_eq Let_def io_simps)
  next
    case (Inr found)
    with s assms show ?thesis
      by (cases found) (simp_all add: findExecutable_def checkDirectory_eq Let_def io_simps)
  qed
qed

lemma findExecutable_readdir_error:
  assumes "\<not> holdsExecutable w root" and "readdirOutcome w root = Inl m"
  shows "findExecutable w root =
     ([ExistsSync (pathJoin w root (''task'' @ EXE_EXTENSION w)), ReaddirSync root,
       Warning (''Error encountered while searching for executable. Error: '' @ m),
       Warning (''Executable not found: '' @ ''task'' @ EXE_EXTENSION w @ '' in directory: '' @ root)],
      Inr [])"
  using assms by (simp add: findExecutable_def checkDirectory_eq Let_def io_simps)

lemma findExecutable_events:
  assumes "ev \<in> set (fst (findExecutable w root))"
  shows "ev = ExistsSync (pathJoin w root (''task'' @ EXE_EXTENSION w))
       \<or> ev = ReaddirSync root
       \<or> (\<exists>s. ev = Warning s)
       \<or> (\<exists>entries. readdirOutcome w root = Inr entries
            \<and> (\<exists>e \<in> set entries. ev = StatSync (pathJoin w root e)
                  \<or> ev = ExistsSync (pathJoin w (pathJoin w root e) (''task'' @ EXE_EXTENSION w))))"
proof (cases "holdsExecutable w root")
  case True
  then show ?thesis using assms by (simp add: findExecutable_direct)
next
  case False
  show ?thesis
  proof (cases "readdirOutcome w root")
    case (Inl m)
    then show ?thesis using assms False by (auto simp: findExecutable_readdir_error)
  next
    case (Inr entries)
    from assms have "ev \<in> set [ExistsSync (pathJoin w root (''task'' @ EXE_EXTENSION w)), ReaddirSync root]
        \<or> ev \<in> set (fst (searchEntries w root entries))
        \<or> (\<exists>s. ev = Warning s)"
      unfolding findExecutable_listed[OF False Inr]
      by (auto split: sum.splits option.splits)
    then show ?thesis using searchEntries_events[of ev w root entries] Inr by auto
  qed
qed

lemma findExecutable_total: "\<exists>p. snd (findExecutable w root) = Inr p"
proof (cases "holdsExecutable w root")
  case True
  then show ?thesis by (simp add: findExecutable_direct)
next
  case False
  show ?thesis
  proof (cases "readdirOutcome w root")
    case (Inl m)
    then show ?thesis using False by (simp add: findExecutable_readdir_error)
  next
    case (Inr entries)
    then show ?thesis using False by (simp add: findExecutable_listed)
  qed
qed

lemma installTask_not_found:
  assumes "resolveVersion w opts = (e1, Inr ver)" and "getDownloadUrl w ver = (e2, Inr url)"
    and "downloadOutcome w url = Inr dl" and "extractArchive w url dl = (e3, Inr root)"
    and "snd (findExecutable w root) = Inr []"
  shows "snd (installTask w opts) =
           Inl (''Installation process terminated. Error: Executable not found in extracted directory: '' @ root)"
proof -
  obtain e4 where f: "findExecutable w root = (e4, Inr [])"
    using assms(5) by (cases "findExecutable w root") simp
  show ?thesis
    by (simp add: installTask_def assms(1-4) f io_simps logAndFail_def)
qed

lemma restoreCache_total: "\<exists>p. snd (restoreCache w v) = Inr p"
  unfolding restoreCache_def Let_def
  by (rule tryCatch_total) (simp add: io_simps)

lemma saveCache_total: "snd (saveCache w p v) = Inr ()"
proof -
  have "\<exists>x. snd (saveCache w p v) = Inr x"
    unfolding saveCache_def Let_def
    by (rule tryCatch_total) (simp add: io_simps)
  then show ?thesis by simp
qed

lemma restoreOrInstall_failure:
  assumes "snd (restoreOrInstall w opts) = Inl msg"
  shows "snd (installTask w opts) = Inl msg"
proof -
  obtain e1 p where r: "(if \<not> skipCache opts then restoreCache w (version opts) else succeed []) = (e1, Inr p)"
    using restoreCache_total[of w "version opts"]
    by (cases "restoreCache w (version opts)"; cases "skipCache opts") (auto simp: succeed_def)
  obtain e2 i where i: "installTask w opts = (e2, i)" by (cases "installTask w opts")
  have np: "p = []"
    using assms r by (cases "p = []") (simp_all add: restoreOrInstall_def io_simps)
  show ?thesis
  proof (cases i)
    case (Inl m)
    then show ?thesis using assms r i np by (simp add: restoreOrInstall_def io_simps)
  next
    case (Inr path)
    obtain e3 where s: "(if \<not> skipCache opts then saveCache w path (version opts) else succeed ()) = (e3, Inr ())"
      using saveCache_total[of w path "version opts"]
      by (cases "saveCache w path (version opts)"; cases "skipCache opts") (auto simp: succeed_def)
    show ?thesis using assms r i np Inr s by (simp add: restoreOrInstall_def io_simps)
  qed
qed

lemma fst_tryCatch_cons: "\<exists>r. fst m = ev # r \<Longrightarrow> \<exists>r. fst (tryCatch m h) = ev # r"
  by (cases "snd m") (auto simp add: tryCatch_def)

lemma fst_andThen_cons: "\<exists>r. fst m = ev # r \<Longrightarrow> \<exists>r. fst (andThen m f) = ev # r"
  by (cases "snd m") (auto simp add: andThen_def)

lemma fetchLatestRelease_fetch_first:
  "\<exists>rest. fst (fetchLatestRelease w token) =
     Fetch (RELEASES_API_URL @ ''/latest'')
       (if token \<noteq> [] then [(''Authorization'', ''Bearer '' @ token)] else []) # rest"
  unfolding fetchLatestRelease_def Let_def
  by (rule fst_tryCatch_andThen_call)

lemma resolveVersion_latest_fetch_first:
  assumes "version opts = ''latest''"
  shows "\<exists>rest. fst (resolveVersion w opts) =
     Fetch (RELEASES_API_URL @ ''/latest'')
       (if githubToken opts \<noteq> [] then [(''Authorization'', ''Bearer '' @ githubToken opts)] else [])
     # rest"
  unfolding resolveVersion_def assms
  by (simp only: if_True simp_thms, rule fst_tryCatch_cons, rule fetchLatestRelease_fetch_first)

lemma installTask_latest_fetch_first:
  assumes "version opts = ''latest''"
  shows "\<exists>rest. fst (installTask w opts) =
     Fetch (RELEASES_API_URL @ ''/latest'')
       (if githubToken opts \<noteq> [] then [(''Authorization'', ''Bearer '' @ githubToken opts)] else [])
     # rest"
  unfolding installTask_def
  by (rule fst_tryCatch_cons, rule fst_andThen_cons)
     (rule resolveVersion_latest_fetch_first [OF assms])

lemma findExecutable_stat_error:
  assumes "\<not> holdsExecutable w root" and "readdirOutcome w root = Inr (pre @ e # rest)"
    and "\<forall>x \<in> set pre. passedEntry w root x"
    and "statIsDirectory w (pathJoin w root e) = Inl m"
  shows "snd (findExecutable w root) = Inr []"
proof -
  have "snd (searchEntries w root (pre @ e # rest)) = snd (searchEntries w root (e # rest))"
    using assms(3) by (rule searchEntries_passed)
  also have "\<dots> = Inl m"
    using assms(4) by (simp add: searchEntries_stat_error del: searchEntries.simps)
  finally have "snd (searchEntries w root (pre @ e # rest)) = Inl m" .
  then show ?thesis
    using assms(1,2) by (simp add: findExecutable_listed del: searchEntries.simps)
qed

lemma verifyInstallation_completed:
  assumes "whichVerify w = Inr taskPath" and "versionQuery w (trim taskPath) = (output, None)"
  shows "verifyInstallation w =
           (if trim output = []
            then ([Exec ''which'' [''task''], Exec (trim taskPath) [''--version''],
                   ErrorLog ''Task verification error: Task verification failed: No version returned from Task''],
                  Inl ''Task verification failed: Task verification failed: No version returned from Task'')
            else ([Exec ''which'' [''task''], Exec (trim taskPath) [''--version'']], Inr ()))"
  using assms by (simp add: verifyInstallation_def io_simps)

lemma verifyInstallation_rejected:
  assumes "whichVerify w = Inr taskPath" and "versionQuery w (trim taskPath) = (output, Some e)"
  shows "verifyInstallation w =
           ([Exec ''which'' [''task''], Exec (trim taskPath) [''--version''],
             ErrorLog (''Task verification error: '' @ e)],
            Inl (''Task verification failed: '' @ e))"
  using assms by (simp add: verifyInstallation_def io_simps)

lemma verifyInstallation_not_found:
  assumes "whichVerify w = Inl e"
  shows "verifyInstallation w =
           ([Exec ''which'' [''task''], ErrorLog (''Task verification error: '' @ e)],
            Inl (''Task verification failed: '' @ e))"
  using assms by (simp add: verifyInstallation_def io_simps)

















lemma fst_tryCatch: "fst (tryCatch m h) = fst m @ (case snd m of Inl e \<Rightarrow> fst (h e) | Inr x \<Rightarrow> [])"
  by (cases "snd m") (simp_all add: tryCatch_def)







section \<open>Version resolution\<close>

text \<open>
  C1. When no version file is given and the \<open>version\<close> input is an explicit version
  \<open>v\<close> (not empty, not \<open>latest\<close>), the options carry \<open>v\<close> unchanged, the installer
  resolves it to \<open>v\<close> without asking the release index and without removing a leading
  \<open>v\<close>, and the first thing it does on a supported platform is to download from the URL
  whose version segment is the letter \<open>v\<close> followed by \<open>v\<close> as given. The input
  \<open>v3.43.1\<close> gives the segment \<open>vv3.43.1\<close>.
\<close>

theorem explicit_version_used_verbatim:
  assumes "inputs w ''version-from-file'' = []" and "inputs w ''version'' = v"
    and "v \<noteq> []" and "v \<noteq> ''latest''"
  shows "getTaskOptions w =
           ([], Inr \<lparr>version = v, skipCache = (inputs w ''skip-cache'' = ''true''),
                     githubToken = inputs w ''github-token''\<rparr>)
       \<and> (\<forall>opts :: TaskOptions. version opts = v \<longrightarrow> resolveVersion w opts = ([], Inr v))
       \<and> (\<forall>os a. OS_MAPPING (platform w) = Some os \<and> ARCH_MAPPING (arch w) = Some a \<longrightarrow>
            (\<forall>opts :: TaskOptions. version opts = v \<longrightarrow>
               (\<exists>rest. fst (installTask w opts) =
                  DownloadTool (RELEASES_URL @ ''/v'' @ v @ ''/task_'' @ os @ ''_'' @ a @ ''.''
                                @ (if platform w = ''win32'' then ''zip'' else ''tar.gz'')) # rest)))"
proof (intro conjI allI impI)
  show "getTaskOptions w =
           ([], Inr \<lparr>version = v, skipCache = (inputs w ''skip-cache'' = ''true''),
                     githubToken = inputs w ''github-token''\<rparr>)"
    using assms by (simp add: getTaskOptions_def io_simps)
next
  fix opts :: TaskOptions assume "version opts = v"
  then show "resolveVersion w opts = ([], Inr v)"
    using assms(4) resolveVersion_explicit[of opts w] by simp
next
  fix os a and opts :: TaskOptions
  assume m: "OS_MAPPING (platform w) = Some os \<and> ARCH_MAPPING (arch w) = Some a"
    and o: "version opts = v"
  have "resolveVersion w opts = ([], Inr v)"
    using assms(4) o resolveVersion_explicit[of opts w] by simp
  then show "\<exists>rest. fst (installTask w opts) =
                  DownloadTool (RELEASES_URL @ ''/v'' @ v @ ''/task_'' @ os @ ''_'' @ a @ ''.''
                                @ (if platform w = ''win32'' then ''zip'' else ''tar.gz'')) # rest"
    using installTask_download_first getDownloadUrl_supported m by blast
qed

theorem explicit_version_used_verbatim_witness:
  "inputs explicitVWorld ''version-from-file'' = []
   \<and> inputs explicitVWorld ''version'' = ''v3.43.1''
   \<and> ''v3.43.1'' \<noteq> [] \<and> ''v3.43.1'' \<noteq> ''latest''
   \<and> OS_MAPPING (platform explicitVWorld) = Some ''linux''
   \<and> ARCH_MAPPING (arch explicitVWorld) = Some ''amd64''
   \<and> getTaskOptions explicitVWorld =
        ([], Inr \<lparr>version = ''v3.43.1'', skipCache = False, githubToken = []\<rparr>)
   \<and> resolveVersion explicitVWorld \<lparr>version = ''v3.43.1'', skipCache = False, githubToken = []\<rparr>
        = ([], Inr ''v3.43.1'')
   \<and> (\<exists>rest. fst (installTask explicitVWorld
                      \<lparr>version = ''v3.43.1'', skipCache = False, githubToken = []\<rparr>) =
          DownloadTool ''https://github.com/go-task/task/releases/download/vv3.43.1/task_linux_amd64.tar.gz''
          # rest)"
proof -
  let ?o = "\<lparr>version = ''v3.43.1'', skipCache = False, githubToken = []\<rparr>"
  have h: "inputs explicitVWorld ''version-from-file'' = []"
          "inputs explicitVWorld ''version'' = ''v3.43.1''"
          "''v3.43.1'' \<noteq> []" "''v3.43.1'' \<noteq> ''latest''"
    by (simp_all add: explicitVWorld_def posixWorld_def)
  have m: "OS_MAPPING (platform explicitVWorld) = Some ''linux''
           \<and> ARCH_MAPPING (arch explicitVWorld) = Some ''amd64''"
    by (simp add: explicitVWorld_def posixWorld_def OS_MAPPING_def ARCH_MAPPING_def)
  note t = explicit_version_used_verbatim [OF h]
  have a: "getTaskOptions explicitVWorld = ([], Inr ?o)"
    using t by (simp add: explicitVWorld_def posixWorld_def)
  have b: "resolveVersion explicitVWorld ?o = ([], Inr ''v3.43.1'')"
    using t by simp
  have "\<exists>rest. fst (installTask explicitVWorld ?o) =
          DownloadTool (RELEASES_URL @ ''/v'' @ ''v3.43.1'' @ ''/task_'' @ ''linux'' @ ''_'' @ ''amd64''
            @ ''.'' @ (if platform explicitVWorld = ''win32'' then ''zip'' else ''tar.gz'')) # rest"
    using t m by simp
  then have c: "\<exists>rest. fst (installTask explicitVWorld ?o) =
          DownloadTool ''https://github.com/go-task/task/releases/download/vv3.43.1/task_linux_amd64.tar.gz''
          # rest"
    by (simp add: RELEASES_URL_def explicitVWorld_def posixWorld_def)
  show ?thesis using h m a b c by simp
qed

text \<open>
  C2. The specification asks that a version file which is empty after trimming falls
  back to \<open>latest\<close>. The code tests the content before trimming it: a file holding a single
  line feed is not empty, so its trimmed content, the empty string, becomes the version;
  the installer resolves the empty string without asking the release index and builds a
  URL whose version segment is the bare letter \<open>v\<close>. Only a file of zero length keeps
  \<open>latest\<close>.
\<close>

theorem blank_version_file_accepted:
  "getTaskOptions blankFileWorld =
     ([ReadFileSync ''.task-version''], Inr \<lparr>version = [], skipCache = False, githubToken = []\<rparr>)
   \<and> resolveVersion blankFileWorld \<lparr>version = [], skipCache = False, githubToken = []\<rparr> = ([], Inr [])
   \<and> getDownloadUrl blankFileWorld [] =
       ([], Inr ''https://github.com/go-task/task/releases/download/v/task_linux_amd64.tar.gz'')
   \<and> getTaskOptions emptyFileWorld =
     ([ReadFileSync ''.task-version''], Inr \<lparr>version = ''latest'', skipCache = False, githubToken = []\<rparr>)"
  by (simp add: getTaskOptions_def resolveVersion_def getDownloadUrl_def getPlatform_def getArchitecture_def
      blankFileWorld_def emptyFileWorld_def posixWorld_def io_simps trim_lf OS_MAPPING_def ARCH_MAPPING_def RELEASES_URL_def)

text \<open>
  C4. The specification asks that every resolved version is non-empty and free of a
  leading \<open>v\<close>. The release-index path removes it (\<open>cleanVersionFromTag\<close>); the explicit input and the
  version file do not: the input \<open>v3.43.1\<close> and a file holding \<open>v3.43.1\<close> both resolve
  to \<open>v3.43.1\<close>, while the tag \<open>v3.43.1\<close> resolves to \<open>3.43.1\<close>.
\<close>

theorem explicit_v_prefix_kept:
  "getTaskOptions explicitVWorld =
     ([], Inr \<lparr>version = ''v3.43.1'', skipCache = False, githubToken = []\<rparr>)
   \<and> getTaskOptions vFileWorld =
     ([ReadFileSync ''.task-version''], Inr \<lparr>version = ''v3.43.1'', skipCache = False, githubToken = []\<rparr>)
   \<and> resolveVersion posixWorld \<lparr>version = ''v3.43.1'', skipCache = False, githubToken = []\<rparr>
       = ([], Inr ''v3.43.1'')
   \<and> startsWith ''v3.43.1'' ''v''
   \<and> resolveVersion latestWorld \<lparr>version = ''latest'', skipCache = False, githubToken = []\<rparr>
       = ([Fetch ''https://api.github.com/repos/go-task/task/releases/latest'' []], Inr ''3.43.1'')"
  by (simp add: getTaskOptions_def resolveVersion_def fetchLatestRelease_def cleanVersionFromTag_def
       startsWith_def explicitVWorld_def vFileWorld_def latestWorld_def posixWorld_def io_simps trim_v [simplified]
       RELEASES_API_URL_def)

text \<open>
  C8. When \<open>version-from-file\<close> is set and \<open>version\<close> is set to something other than
  \<open>latest\<close>, \<open>getTaskOptions\<close> throws the conflict message before it reads any file, and
  the whole run consists of the failure signal alone. When \<open>version-from-file\<close> is set
  and \<open>version\<close> is \<open>latest\<close>, the conflict error is not thrown and a readable file
  gives the options.
\<close>

theorem version_inputs_conflict:
  "(inputs w ''version-from-file'' \<noteq> [] \<and> inputs w ''version'' \<noteq> [] \<and> inputs w ''version'' \<noteq> ''latest''
      \<longrightarrow> getTaskOptions w =
            ([], Inl ''Both version and version-from-file inputs cannot be used together. Please specify only one.'')
        \<and> run w =
            ([SetFailed ''Task setup failed: Both version and version-from-file inputs cannot be used together. Please specify only one.''],
             Inr ()))
   \<and> (inputs w ''version-from-file'' \<noteq> [] \<and> inputs w ''version'' = ''latest''
      \<longrightarrow> snd (getTaskOptions w) \<noteq>
            Inl ''Both version and version-from-file inputs cannot be used together. Please specify only one.''
        \<and> (\<forall>content. readFileOutcome w (inputs w ''version-from-file'') = Inr content \<longrightarrow>
              getTaskOptions w =
                ([ReadFileSync (inputs w ''version-from-file'')],
                 Inr \<lparr>version = (if content \<noteq> [] then trim content else ''latest''),
                      skipCache = (inputs w ''skip-cache'' = ''true''),
                      githubToken = inputs w ''github-token''\<rparr>)))"
proof (intro conjI impI allI)
  assume a: "inputs w ''version-from-file'' \<noteq> [] \<and> inputs w ''version'' \<noteq> [] \<and> inputs w ''version'' \<noteq> ''latest''"
  then show g: "getTaskOptions w =
            ([], Inl ''Both version and version-from-file inputs cannot be used together. Please specify only one.'')"
    by (simp add: getTaskOptions_def io_simps)
  show "run w =
            ([SetFailed ''Task setup failed: Both version and version-from-file inputs cannot be used together. Please specify only one.''],
             Inr ())"
    unfolding run_def g by (simp add: io_simps)
next
  assume a: "inputs w ''version-from-file'' \<noteq> [] \<and> inputs w ''version'' = ''latest''"
  show "snd (getTaskOptions w) \<noteq>
            Inl ''Both version and version-from-file inputs cannot be used together. Please specify only one.''"
    using a by (cases "readFileOutcome w (inputs w ''version-from-file'')")
      (simp_all add: getTaskOptions_def Let_def io_simps)
next
  fix content
  assume a: "inputs w ''version-from-file'' \<noteq> [] \<and> inputs w ''version'' = ''latest''"
    and r: "readFileOutcome w (inputs w ''version-from-file'') = Inr content"
  show "getTaskOptions w =
                ([ReadFileSync (inputs w ''version-from-file'')],
                 Inr \<lparr>version = (if content \<noteq> [] then trim content else ''latest''),
                      skipCache = (inputs w ''skip-cache'' = ''true''),
                      githubToken = inputs w ''github-token''\<rparr>)"
    using a r by (simp add: getTaskOptions_def io_simps)
qed

theorem version_inputs_conflict_witness:
  "inputs conflictWorld ''version-from-file'' \<noteq> []
   \<and> inputs conflictWorld ''version'' \<noteq> []
   \<and> inputs conflictWorld ''version'' \<noteq> ''latest''
   \<and> getTaskOptions conflictWorld =
       ([], Inl ''Both version and version-from-file inputs cannot be used together. Please specify only one.'')
   \<and> run conflictWorld =
       ([SetFailed ''Task setup failed: Both version and version-from-file inputs cannot be used together. Please specify only one.''],
        Inr ())
   \<and> inputs fileAndLatestWorld ''version-from-file'' \<noteq> []
   \<and> inputs fileAndLatestWorld ''version'' = ''latest''
   \<and> readFileOutcome fileAndLatestWorld (inputs fileAndLatestWorld ''version-from-file'')
       = Inr (''3.42.0'' @ [CHR 0x0A])
   \<and> getTaskOptions fileAndLatestWorld =
       ([ReadFileSync ''.task-version''],
        Inr \<lparr>version = ''3.42.0'', skipCache = False, githubToken = []\<rparr>)"
proof -
  have c: "inputs conflictWorld ''version-from-file'' \<noteq> []
           \<and> inputs conflictWorld ''version'' \<noteq> []
           \<and> inputs conflictWorld ''version'' \<noteq> ''latest''"
    by (simp add: conflictWorld_def posixWorld_def)
  have 1: "getTaskOptions conflictWorld =
       ([], Inl ''Both version and version-from-file inputs cannot be used together. Please specify only one.'')
     \<and> run conflictWorld =
       ([SetFailed ''Task setup failed: Both version and version-from-file inputs cannot be used together. Please specify only one.''],
        Inr ())"
    using version_inputs_conflict [of conflictWorld] c by blast
  have f: "inputs fileAndLatestWorld ''version-from-file'' \<noteq> []
           \<and> inputs fileAndLatestWorld ''version'' = ''latest''"
    by (simp add: fileAndLatestWorld_def posixWorld_def)
  have r: "readFileOutcome fileAndLatestWorld (inputs fileAndLatestWorld ''version-from-file'')
             = Inr (''3.42.0'' @ [CHR 0x0A])"
    by (simp add: fileAndLatestWorld_def posixWorld_def)
  have t: "trim (''3.42.0'' @ [CHR 0x0A]) = ''3.42.0''" by code_simp
  have "getTaskOptions fileAndLatestWorld =
          ([ReadFileSync (inputs fileAndLatestWorld ''version-from-file'')],
           Inr \<lparr>version = (if ''3.42.0'' @ [CHR 0x0A] \<noteq> [] then trim (''3.42.0'' @ [CHR 0x0A]) else ''latest''),
                skipCache = (inputs fileAndLatestWorld ''skip-cache'' = ''true''),
                githubToken = inputs fileAndLatestWorld ''github-token''\<rparr>)"
    using version_inputs_conflict [of fileAndLatestWorld] f r by blast
  then have 2: "getTaskOptions fileAndLatestWorld =
       ([ReadFileSync ''.task-version''],
        Inr \<lparr>version = ''3.42.0'', skipCache = False, githubToken = []\<rparr>)"
    unfolding t by (simp add: fileAndLatestWorld_def posixWorld_def)
  show ?thesis using c 1 f r 2 by blast
qed

section \<open>Cache\<close>




text \<open>
  C7. \<open>restoreCache\<close> never throws: when the cache backend fails, when a hit leaves no
  executable in the cache directory, or when setting the permission bits fails, it logs
  a warning and returns the empty string. \<open>saveCache\<close> never throws: when creating the
  directory, copying the file or the cache backend fails, it logs warnings and returns.
  Whenever restoring or installing fails, it fails with the failure of \<open>installTask\<close>.
\<close>

theorem cache_failures_swallowed:
  "(\<forall>msg. snd (restoreCache w v) \<noteq> Inl msg)
   \<and> (cacheRestoreOutcome w [getCacheDirectory w] (getCacheKey w v) = Inl m \<longrightarrow>
        restoreCache w v =
          ([CacheRestore [getCacheDirectory w] (getCacheKey w v),
            Warning (''Failed to restore from cache: '' @ m)], Inr []))
   \<and> (cacheRestoreOutcome w [getCacheDirectory w] (getCacheKey w v) = Inr hitKey \<and> truthy hitKey
        \<and> \<not> existsOutcome w (pathJoin w (getCacheDirectory w) (getTaskExecutableName w)) \<longrightarrow>
        restoreCache w v =
          ([CacheRestore [getCacheDirectory w] (getCacheKey w v),
            ExistsSync (pathJoin w (getCacheDirectory w) (getTaskExecutableName w)),
            Warning (''Cache was hit but Task was not found at ''
                     @ pathJoin w (getCacheDirectory w) (getTaskExecutableName w))], Inr []))
   \<and> (cacheRestoreOutcome w [getCacheDirectory w] (getCacheKey w v) = Inr hitKey \<and> truthy hitKey
        \<and> existsOutcome w (pathJoin w (getCacheDirectory w) (getTaskExecutableName w))
        \<and> platform w \<noteq> ''win32''
        \<and> chmodOutcome w (pathJoin w (getCacheDirectory w) (getTaskExecutableName w)) = Inl m \<longrightarrow>
        restoreCache w v =
          ([CacheRestore [getCacheDirectory w] (getCacheKey w v),
            ExistsSync (pathJoin w (getCacheDirectory w) (getTaskExecutableName w)),
            ChmodSync (pathJoin w (getCacheDirectory w) (getTaskExecutableName w)),
            Warning (''Failed to restore from cache: '' @ m)], Inr []))
   \<and> snd (saveCache w taskPath v) = Inr ()
   \<and> (mkdirOutcome w (getCacheDirectory w) = Inl m \<longrightarrow>
        saveCache w taskPath v =
          ([MkdirSync (getCacheDirectory w),
            Warning (''Failed to save Task to cache: '' @ m),
            Warning (''Failed to save cache: '' @ m)], Inr ()))
   \<and> (mkdirOutcome w (getCacheDirectory w) = Inr ()
        \<and> taskPath \<noteq> pathJoin w (getCacheDirectory w) (getTaskExecutableName w)
        \<and> copyFileOutcome w taskPath (pathJoin w (getCacheDirectory w) (getTaskExecutableName w)) = Inl m \<longrightarrow>
        saveCache w taskPath v =
          ([MkdirSync (getCacheDirectory w),
            CopyFileSync taskPath (pathJoin w (getCacheDirectory w) (getTaskExecutableName w)),
            Warning (''Failed to save Task to cache: '' @ m),
            Warning (''Failed to save cache: '' @ m)], Inr ()))
   \<and> (mkdirOutcome w (getCacheDirectory w) = Inr ()
        \<and> copyFileOutcome w taskPath (pathJoin w (getCacheDirectory w) (getTaskExecutableName w)) = Inr ()
        \<and> cacheSaveOutcome w [getCacheDirectory w] (getCacheKey w v) = Inl m \<longrightarrow>
        snd (saveCache w taskPath v) = Inr ()
        \<and> Warning (''Failed to save cache: '' @ m) \<in> set (fst (saveCache w taskPath v)))
   \<and> (\<forall>msg. snd (restoreOrInstall w opts) = Inl msg \<longrightarrow> snd (installTask w opts) = Inl msg)"
proof (intro conjI impI allI)
  fix msg show "snd (restoreCache w v) \<noteq> Inl msg"
    using restoreCache_total[of w v] by auto
next
  assume "cacheRestoreOutcome w [getCacheDirectory w] (getCacheKey w v) = Inl m"
  then show "restoreCache w v =
          ([CacheRestore [getCacheDirectory w] (getCacheKey w v),
            Warning (''Failed to restore from cache: '' @ m)], Inr [])"
    by (simp add: restoreCache_def Let_def io_simps)
next
  assume "cacheRestoreOutcome w [getCacheDirectory w] (getCacheKey w v) = Inr hitKey \<and> truthy hitKey
        \<and> \<not> existsOutcome w (pathJoin w (getCacheDirectory w) (getTaskExecutableName w))"
  then show "restoreCache w v =
          ([CacheRestore [getCacheDirectory w] (getCacheKey w v),
            ExistsSync (pathJoin w (getCacheDirectory w) (getTaskExecutableName w)),
            Warning (''Cache was hit but Task was not found at ''
                     @ pathJoin w (getCacheDirectory w) (getTaskExecutableName w))], Inr [])"
    by (simp add: restoreCache_def Let_def io_simps)
next
  assume "cacheRestoreOutcome w [getCacheDirectory w] (getCacheKey w v) = Inr hitKey \<and> truthy hitKey
        \<and> existsOutcome w (pathJoin w (getCacheDirectory w) (getTaskExecutableName w))
        \<and> platform w \<noteq> ''win32''
        \<and> chmodOutcome w (pathJoin w (getCacheDirectory w) (getTaskExecutableName w)) = Inl m"
  then show "restoreCache w v =
          ([CacheRestore [getCacheDirectory w] (getCacheKey w v),
            ExistsSync (pathJoin w (getCacheDirectory w) (getTaskExecutableName w)),
            ChmodSync (pathJoin w (getCacheDirectory w) (getTaskExecutableName w)),
            Warning (''Failed to restore from cache: '' @ m)], Inr [])"
    by (simp add: restoreCache_def Let_def io_simps)
next
  show "snd (saveCache w taskPath v) = Inr ()" by (rule saveCache_total)
next
  assume "mkdirOutcome w (getCacheDirectory w) = Inl m"
  then show "saveCache w taskPath v =
          ([MkdirSync (getCacheDirectory w),
            Warning (''Failed to save Task to cache: '' @ m),
            Warning (''Failed to save cache: '' @ m)], Inr ())"
    by (simp add: saveCache_def Let_def io_simps)
next
  assume "mkdirOutcome w (getCacheDirectory w) = Inr ()
        \<and> taskPath \<noteq> pathJoin w (getCacheDirectory w) (getTaskExecutableName w)
        \<and> copyFileOutcome w taskPath (pathJoin w (getCacheDirectory w) (getTaskExecutableName w)) = Inl m"
  then show "saveCache w taskPath v =
          ([MkdirSync (getCacheDirectory w),
            CopyFileSync taskPath (pathJoin w (getCacheDirectory w) (getTaskExecutableName w)),
            Warning (''Failed to save Task to cache: '' @ m),
            Warning (''Failed to save cache: '' @ m)], Inr ())"
    by (simp add: saveCache_def Let_def io_simps)
next
  assume a: "mkdirOutcome w (getCacheDirectory w) = Inr ()
        \<and> copyFileOutcome w taskPath (pathJoin w (getCacheDirectory w) (getTaskExecutableName w)) = Inr ()
        \<and> cacheSaveOutcome w [getCacheDirectory w] (getCacheKey w v) = Inl m"
  show "snd (saveCache w taskPath v) = Inr ()" by (rule saveCache_total)
  show "Warning (''Failed to save cache: '' @ m) \<in> set (fst (saveCache w taskPath v))"
    using a by (simp add: saveCache_def Let_def io_simps)
next
  fix msg assume "snd (restoreOrInstall w opts) = Inl msg"
  then show "snd (installTask w opts) = Inl msg" by (rule restoreOrInstall_failure)
qed

theorem cache_failures_swallowed_witness:
  "cacheRestoreOutcome cacheDownWorld [getCacheDirectory cacheDownWorld] (getCacheKey cacheDownWorld ''3.43.1'')
     = Inl ''Cache service unavailable''
   \<and> restoreCache cacheDownWorld ''3.43.1'' =
       ([CacheRestore [''/tmp/task-runner''] ''task-runner-3.43.1-linux-x64'',
         Warning ''Failed to restore from cache: Cache service unavailable''], Inr [])
   \<and> cacheRestoreOutcome hollowHitWorld [getCacheDirectory hollowHitWorld] (getCacheKey hollowHitWorld ''3.43.1'')
     = Inr (Some ''task-runner-3.43.1-linux-x64'')
   \<and> truthy (Some ''task-runner-3.43.1-linux-x64'')
   \<and> \<not> existsOutcome hollowHitWorld
         (pathJoin hollowHitWorld (getCacheDirectory hollowHitWorld) (getTaskExecutableName hollowHitWorld))
   \<and> restoreCache hollowHitWorld ''3.43.1'' =
       ([CacheRestore [''/tmp/task-runner''] ''task-runner-3.43.1-linux-x64'',
         ExistsSync ''/tmp/task-runner/task'',
         Warning ''Cache was hit but Task was not found at /tmp/task-runner/task''], Inr [])
   \<and> existsOutcome chmodFailsWorld
         (pathJoin chmodFailsWorld (getCacheDirectory chmodFailsWorld) (getTaskExecutableName chmodFailsWorld))
   \<and> platform chmodFailsWorld \<noteq> ''win32''
   \<and> chmodOutcome chmodFailsWorld
         (pathJoin chmodFailsWorld (getCacheDirectory chmodFailsWorld) (getTaskExecutableName chmodFailsWorld))
       = Inl ''EPERM''
   \<and> restoreCache chmodFailsWorld ''3.43.1'' =
       ([CacheRestore [''/tmp/task-runner''] ''task-runner-3.43.1-linux-x64'',
         ExistsSync ''/tmp/task-runner/task'', ChmodSync ''/tmp/task-runner/task'',
         Warning ''Failed to restore from cache: EPERM''], Inr [])
   \<and> mkdirOutcome readOnlyTmpWorld (getCacheDirectory readOnlyTmpWorld) = Inl ''EACCES''
   \<and> saveCache readOnlyTmpWorld ''/tmp/x/task'' ''3.43.1'' =
       ([MkdirSync ''/tmp/task-runner'',
         Warning ''Failed to save Task to cache: EACCES'',
         Warning ''Failed to save cache: EACCES''], Inr ())
   \<and> copyFileOutcome copyFailsWorld ''/tmp/x/task''
        (pathJoin copyFailsWorld (getCacheDirectory copyFailsWorld) (getTaskExecutableName copyFailsWorld))
       = Inl ''Copy error''
   \<and> saveCache copyFailsWorld ''/tmp/x/task'' ''3.43.1'' =
       ([MkdirSync ''/tmp/task-runner'',
         CopyFileSync ''/tmp/x/task'' ''/tmp/task-runner/task'',
         Warning ''Failed to save Task to cache: Copy error'',
         Warning ''Failed to save cache: Copy error''], Inr ())
   \<and> cacheSaveOutcome cacheDownWorld [getCacheDirectory cacheDownWorld] (getCacheKey cacheDownWorld ''3.43.1'')
       = Inl ''Cache save error''
   \<and> snd (saveCache cacheDownWorld ''/tmp/x/task'' ''3.43.1'') = Inr ()
   \<and> Warning ''Failed to save cache: Cache save error''
        \<in> set (fst (saveCache cacheDownWorld ''/tmp/x/task'' ''3.43.1''))
   \<and> snd (restoreOrInstall cacheDownWorld \<lparr>version = ''3.43.1'', skipCache = False, githubToken = []\<rparr>)
       = Inl ''Installation process terminated. Error: Executable not found in extracted directory: /tmp/x''
   \<and> snd (installTask cacheDownWorld \<lparr>version = ''3.43.1'', skipCache = False, githubToken = []\<rparr>)
       = Inl ''Installation process terminated. Error: Executable not found in extracted directory: /tmp/x''"
proof -
  let ?o = "\<lparr>version = ''3.43.1'', skipCache = False, githubToken = []\<rparr>"
  note defs = cacheDownWorld_def hollowHitWorld_def chmodFailsWorld_def readOnlyTmpWorld_def
    copyFailsWorld_def posixWorld_def
    getCacheDirectory_def getCacheKey_def getTaskExecutableName_def pathJoin_def CACHE_DIR_def truthy_def
  have a: "cacheRestoreOutcome cacheDownWorld [getCacheDirectory cacheDownWorld]
             (getCacheKey cacheDownWorld ''3.43.1'') = Inl ''Cache service unavailable''"
    by (simp add: defs)
  have b: "cacheRestoreOutcome hollowHitWorld [getCacheDirectory hollowHitWorld]
             (getCacheKey hollowHitWorld ''3.43.1'') = Inr (Some ''task-runner-3.43.1-linux-x64'')
           \<and> truthy (Some ''task-runner-3.43.1-linux-x64'')
           \<and> \<not> existsOutcome hollowHitWorld
                 (pathJoin hollowHitWorld (getCacheDirectory hollowHitWorld)
                    (getTaskExecutableName hollowHitWorld))"
    by (simp add: defs)
  have c: "mkdirOutcome readOnlyTmpWorld (getCacheDirectory readOnlyTmpWorld) = Inl ''EACCES''"
    by (simp add: defs)
  have g: "cacheRestoreOutcome chmodFailsWorld [getCacheDirectory chmodFailsWorld]
             (getCacheKey chmodFailsWorld ''3.43.1'') = Inr (Some ''task-runner-3.43.1-linux-x64'')
           \<and> truthy (Some ''task-runner-3.43.1-linux-x64'')
           \<and> existsOutcome chmodFailsWorld
                 (pathJoin chmodFailsWorld (getCacheDirectory chmodFailsWorld)
                    (getTaskExecutableName chmodFailsWorld))
           \<and> platform chmodFailsWorld \<noteq> ''win32''
           \<and> chmodOutcome chmodFailsWorld
                 (pathJoin chmodFailsWorld (getCacheDirectory chmodFailsWorld)
                    (getTaskExecutableName chmodFailsWorld)) = Inl ''EPERM''"
    by (simp add: defs)
  have 7: "restoreCache chmodFailsWorld ''3.43.1'' =
       ([CacheRestore [''/tmp/task-runner''] ''task-runner-3.43.1-linux-x64'',
         ExistsSync ''/tmp/task-runner/task'', ChmodSync ''/tmp/task-runner/task'',
         Warning ''Failed to restore from cache: EPERM''], Inr [])"
    using cache_failures_swallowed [of chmodFailsWorld "''3.43.1''" "''EPERM''"
                                       "Some ''task-runner-3.43.1-linux-x64''"] g
    by (simp add: defs)
  have d: "mkdirOutcome copyFailsWorld (getCacheDirectory copyFailsWorld) = Inr ()
           \<and> ''/tmp/x/task'' \<noteq> pathJoin copyFailsWorld (getCacheDirectory copyFailsWorld)
                                   (getTaskExecutableName copyFailsWorld)
           \<and> copyFileOutcome copyFailsWorld ''/tmp/x/task''
               (pathJoin copyFailsWorld (getCacheDirectory copyFailsWorld)
                  (getTaskExecutableName copyFailsWorld)) = Inl ''Copy error''"
    by (simp add: defs)
  have e: "mkdirOutcome cacheDownWorld (getCacheDirectory cacheDownWorld) = Inr ()
           \<and> copyFileOutcome cacheDownWorld ''/tmp/x/task''
               (pathJoin cacheDownWorld (getCacheDirectory cacheDownWorld)
                  (getTaskExecutableName cacheDownWorld)) = Inr ()
           \<and> cacheSaveOutcome cacheDownWorld [getCacheDirectory cacheDownWorld]
               (getCacheKey cacheDownWorld ''3.43.1'') = Inl ''Cache save error''"
    by (simp add: defs)
  have f: "snd (restoreOrInstall cacheDownWorld ?o)
       = Inl ''Installation process terminated. Error: Executable not found in extracted directory: /tmp/x''"
    by (simp add: restoreOrInstall_def restoreCache_def installTask_def resolveVersion_def
        getDownloadUrl_def getPlatform_def getArchitecture_def extractArchive_def endsWith_def
        findExecutable_def checkDirectory_def logAndFail_def EXE_EXTENSION_def OS_MAPPING_def
        ARCH_MAPPING_def RELEASES_URL_def Let_def io_simps defs)
  have 1: "restoreCache cacheDownWorld ''3.43.1'' =
       ([CacheRestore [''/tmp/task-runner''] ''task-runner-3.43.1-linux-x64'',
         Warning ''Failed to restore from cache: Cache service unavailable''], Inr [])"
    using cache_failures_swallowed [of cacheDownWorld "''3.43.1''" "''Cache service unavailable''"] a
    by (simp add: defs)
  have 2: "restoreCache hollowHitWorld ''3.43.1'' =
       ([CacheRestore [''/tmp/task-runner''] ''task-runner-3.43.1-linux-x64'',
         ExistsSync ''/tmp/task-runner/task'',
         Warning ''Cache was hit but Task was not found at /tmp/task-runner/task''], Inr [])"
    using cache_failures_swallowed [of hollowHitWorld "''3.43.1''" _ "Some ''task-runner-3.43.1-linux-x64''"] b
    by (simp add: defs)
  have 3: "saveCache readOnlyTmpWorld ''/tmp/x/task'' ''3.43.1'' =
       ([MkdirSync ''/tmp/task-runner'',
         Warning ''Failed to save Task to cache: EACCES'',
         Warning ''Failed to save cache: EACCES''], Inr ())"
    using cache_failures_swallowed [of readOnlyTmpWorld "''3.43.1''" "''EACCES''" _ "''/tmp/x/task''"] c
    by (simp add: defs)
  have 4: "saveCache copyFailsWorld ''/tmp/x/task'' ''3.43.1'' =
       ([MkdirSync ''/tmp/task-runner'',
         CopyFileSync ''/tmp/x/task'' ''/tmp/task-runner/task'',
         Warning ''Failed to save Task to cache: Copy error'',
         Warning ''Failed to save cache: Copy error''], Inr ())"
    using cache_failures_swallowed [of copyFailsWorld "''3.43.1''" "''Copy error''" _ "''/tmp/x/task''"] d
    by (simp add: defs)
  have 5: "snd (saveCache cacheDownWorld ''/tmp/x/task'' ''3.43.1'') = Inr ()
           \<and> Warning ''Failed to save cache: Cache save error''
                \<in> set (fst (saveCache cacheDownWorld ''/tmp/x/task'' ''3.43.1''))"
    using cache_failures_swallowed [of cacheDownWorld "''3.43.1''" "''Cache save error''" _ "''/tmp/x/task''"] e
    by simp
  have 6: "snd (installTask cacheDownWorld ?o)
       = Inl ''Installation process terminated. Error: Executable not found in extracted directory: /tmp/x''"
    using cache_failures_swallowed [of cacheDownWorld _ _ _ _ ?o] f by blast
  show ?thesis using a b c d e f g 1 2 3 4 5 6 7 by simp
qed

section \<open>Installer\<close>

text \<open>
  C5, in the form the code satisfies. On a supported platform the download URL is the release base, \<open>/v\<close>,
  the version, \<open>/task_\<close>, the mapped system, an underscore, the mapped architecture, a
  dot and the extension, which is \<open>zip\<close> exactly for \<open>windows\<close>; the mappings are
  exactly the three pairs each. On an unsupported system or architecture \<open>installTask\<close>
  fails, and the only calls it has made are the release-index request, error logs and
  failure signals: nothing is downloaded or extracted. With an explicit version no network
  call is made at all. With the version \<open>latest\<close> the first call of \<open>installTask\<close>, on
  every platform, is the request to the release index, so there the failure comes after
  it.
\<close>

theorem download_url_and_platform_check:
  "(OS_MAPPING (platform w) = Some os \<and> ARCH_MAPPING (arch w) = Some a \<longrightarrow>
      getDownloadUrl w v =
        ([], Inr (RELEASES_URL @ ''/v'' @ v @ ''/task_'' @ os @ ''_'' @ a @ ''.''
                  @ (if os = ''windows'' then ''zip'' else ''tar.gz''))))
   \<and> (OS_MAPPING p = Some os' \<longleftrightarrow>
        (p = ''win32'' \<and> os' = ''windows'') \<or> (p = ''darwin'' \<and> os' = ''darwin'')
        \<or> (p = ''linux'' \<and> os' = ''linux''))
   \<and> (ARCH_MAPPING q = Some a' \<longleftrightarrow>
        (q = ''x64'' \<and> a' = ''amd64'') \<or> (q = ''arm64'' \<and> a' = ''arm64'')
        \<or> (q = ''arm'' \<and> a' = ''arm''))
   \<and> (OS_MAPPING (platform w) = None \<or> ARCH_MAPPING (arch w) = None \<longrightarrow>
        (\<exists>msg. snd (installTask w opts) = Inl msg)
        \<and> (\<forall>ev \<in> set (fst (installTask w opts)).
              (\<exists>endpoint headers. ev = Fetch endpoint headers)
              \<or> (\<exists>s. ev = ErrorLog s) \<or> (\<exists>s. ev = SetFailed s))
        \<and> (version opts \<noteq> ''latest'' \<longrightarrow> \<not> list_ex isNetworkCall (fst (installTask w opts))))
   \<and> (version opts = ''latest'' \<longrightarrow>
        (\<exists>rest. fst (installTask w opts) =
           Fetch (RELEASES_API_URL @ ''/latest'')
             (if githubToken opts \<noteq> [] then [(''Authorization'', ''Bearer '' @ githubToken opts)] else [])
           # rest))"
proof (intro conjI impI)
  assume a: "OS_MAPPING (platform w) = Some os \<and> ARCH_MAPPING (arch w) = Some a"
  then have "platform w = ''win32'' \<longleftrightarrow> os = ''windows''"
    by (auto simp: OS_MAPPING_def split: if_splits)
  then show "getDownloadUrl w v =
        ([], Inr (RELEASES_URL @ ''/v'' @ v @ ''/task_'' @ os @ ''_'' @ a @ ''.''
                  @ (if os = ''windows'' then ''zip'' else ''tar.gz'')))"
    using a getDownloadUrl_supported[of w os a v] by simp
next
  show "OS_MAPPING p = Some os' \<longleftrightarrow>
        (p = ''win32'' \<and> os' = ''windows'') \<or> (p = ''darwin'' \<and> os' = ''darwin'')
        \<or> (p = ''linux'' \<and> os' = ''linux'')"
    by (auto simp: OS_MAPPING_def split: if_splits)
next
  show "ARCH_MAPPING q = Some a' \<longleftrightarrow>
        (q = ''x64'' \<and> a' = ''amd64'') \<or> (q = ''arm64'' \<and> a' = ''arm64'')
        \<or> (q = ''arm'' \<and> a' = ''arm'')"
    by (auto simp: ARCH_MAPPING_def split: if_splits)
next
  assume u: "OS_MAPPING (platform w) = None \<or> ARCH_MAPPING (arch w) = None"
  show "\<exists>msg. snd (installTask w opts) = Inl msg"
    using installTask_unsupported[OF u, of opts] by auto
  show "\<forall>ev \<in> set (fst (installTask w opts)).
              (\<exists>endpoint headers. ev = Fetch endpoint headers)
              \<or> (\<exists>s. ev = ErrorLog s) \<or> (\<exists>s. ev = SetFailed s)"
  proof
    fix ev assume i: "ev \<in> set (fst (installTask w opts))"
    obtain tail where t: "fst (installTask w opts) = fst (resolveVersion w opts) @ tail"
      and tl: "\<forall>x \<in> set tail. (\<exists>s. x = ErrorLog s) \<or> (\<exists>s. x = SetFailed s)"
      using installTask_unsupported[OF u, of opts] by fastforce
    from i t have "ev \<in> set (fst (resolveVersion w opts)) \<or> ev \<in> set tail" by simp
    then show "(\<exists>endpoint headers. ev = Fetch endpoint headers)
              \<or> (\<exists>s. ev = ErrorLog s) \<or> (\<exists>s. ev = SetFailed s)"
      using resolveVersion_events[of ev w opts] tl by blast
  qed
next
  assume u: "OS_MAPPING (platform w) = None \<or> ARCH_MAPPING (arch w) = None"
    and e: "version opts \<noteq> ''latest''"
  have "fst (resolveVersion w opts) = []"
    using e by (simp add: resolveVersion_explicit)
  then show "\<not> list_ex isNetworkCall (fst (installTask w opts))"
    using installTask_unsupported[OF u, of opts] by auto
next
  assume "version opts = ''latest''"
  then show "\<exists>rest. fst (installTask w opts) =
           Fetch (RELEASES_API_URL @ ''/latest'')
             (if githubToken opts \<noteq> [] then [(''Authorization'', ''Bearer '' @ githubToken opts)] else [])
           # rest"
    by (rule installTask_latest_fetch_first)
qed

text \<open>
  On FreeBSD with the version \<open>latest\<close> the installer asks the release index, gets the
  tag, and only then fails on the unsupported platform: a network call precedes the
  failure.
\<close>

theorem unsupported_platform_after_fetch_counterexample:
  "OS_MAPPING (platform freebsdWorld) = None
   \<and> installTask freebsdWorld \<lparr>version = ''latest'', skipCache = False, githubToken = []\<rparr> =
       ([Fetch ''https://api.github.com/repos/go-task/task/releases/latest'' [],
         SetFailed ''Unsupported platform: freebsd'',
         ErrorLog ''Task installation failed. Error: Unsupported platform: freebsd'',
         SetFailed ''Installation process terminated. Error: Unsupported platform: freebsd''],
        Inl ''Installation process terminated. Error: Unsupported platform: freebsd'')
   \<and> list_ex isNetworkCall
        (fst (installTask freebsdWorld \<lparr>version = ''latest'', skipCache = False, githubToken = []\<rparr>))"
proof -
  have m: "OS_MAPPING (platform freebsdWorld) = None"
    by (simp add: freebsdWorld_def latestWorld_def posixWorld_def OS_MAPPING_def)
  have r: "resolveVersion freebsdWorld \<lparr>version = ''latest'', skipCache = False, githubToken = []\<rparr> =
             ([Fetch ''https://api.github.com/repos/go-task/task/releases/latest'' []], Inr ''3.43.1'')"
    by (simp add: resolveVersion_def fetchLatestRelease_def cleanVersionFromTag_def startsWith_def
        freebsdWorld_def latestWorld_def posixWorld_def io_simps RELEASES_API_URL_def)
  have g: "getDownloadUrl freebsdWorld ''3.43.1'' =
             ([SetFailed ''Unsupported platform: freebsd''], Inl ''Unsupported platform: freebsd'')"
    by (simp add: getDownloadUrl_def getPlatform_def m logAndFail_def io_simps)
       (simp add: freebsdWorld_def latestWorld_def posixWorld_def)
  have i: "installTask freebsdWorld \<lparr>version = ''latest'', skipCache = False, githubToken = []\<rparr> =
       ([Fetch ''https://api.github.com/repos/go-task/task/releases/latest'' [],
         SetFailed ''Unsupported platform: freebsd'',
         ErrorLog ''Task installation failed. Error: Unsupported platform: freebsd'',
         SetFailed ''Installation process terminated. Error: Unsupported platform: freebsd''],
        Inl ''Installation process terminated. Error: Unsupported platform: freebsd'')"
    by (simp add: installTask_def r g logAndFail_def io_simps)
  show ?thesis unfolding i using m by simp
qed

theorem download_url_and_platform_check_witness:
  "OS_MAPPING (platform win32World) = Some ''windows''
   \<and> ARCH_MAPPING (arch win32World) = Some ''amd64''
   \<and> getDownloadUrl win32World ''3.43.1'' =
       ([], Inr ''https://github.com/go-task/task/releases/download/v3.43.1/task_windows_amd64.zip'')
   \<and> OS_MAPPING (platform posixWorld) = Some ''linux''
   \<and> ARCH_MAPPING (arch posixWorld) = Some ''amd64''
   \<and> getDownloadUrl posixWorld ''3.43.1'' =
       ([], Inr ''https://github.com/go-task/task/releases/download/v3.43.1/task_linux_amd64.tar.gz'')
   \<and> (OS_MAPPING (platform freebsdWorld) = None \<or> ARCH_MAPPING (arch freebsdWorld) = None)
   \<and> version \<lparr>version = ''3.43.1'', skipCache = True, githubToken = []\<rparr> \<noteq> ''latest''
   \<and> (\<exists>msg. snd (installTask freebsdWorld \<lparr>version = ''3.43.1'', skipCache = True, githubToken = []\<rparr>)
               = Inl msg)
   \<and> \<not> list_ex isNetworkCall
          (fst (installTask freebsdWorld \<lparr>version = ''3.43.1'', skipCache = True, githubToken = []\<rparr>))
   \<and> version \<lparr>version = ''latest'', skipCache = True, githubToken = ''t0ken''\<rparr> = ''latest''
   \<and> (\<exists>rest. fst (installTask freebsdWorld
                     \<lparr>version = ''latest'', skipCache = True, githubToken = ''t0ken''\<rparr>) =
          Fetch ''https://api.github.com/repos/go-task/task/releases/latest''
                [(''Authorization'', ''Bearer t0ken'')] # rest)
   \<and> (\<exists>msg. snd (installTask freebsdWorld
                     \<lparr>version = ''latest'', skipCache = True, githubToken = ''t0ken''\<rparr>) = Inl msg)"
proof -
  let ?o = "\<lparr>version = ''3.43.1'', skipCache = True, githubToken = []\<rparr>"
  let ?l = "\<lparr>version = ''latest'', skipCache = True, githubToken = ''t0ken''\<rparr>"
  have w1: "OS_MAPPING (platform win32World) = Some ''windows''"
    by (simp add: win32World_def posixWorld_def OS_MAPPING_def)
  have w2: "ARCH_MAPPING (arch win32World) = Some ''amd64''"
    by (simp add: win32World_def posixWorld_def ARCH_MAPPING_def)
  have l1: "OS_MAPPING (platform posixWorld) = Some ''linux''"
    by (simp add: posixWorld_def OS_MAPPING_def)
  have l2: "ARCH_MAPPING (arch posixWorld) = Some ''amd64''"
    by (simp add: posixWorld_def ARCH_MAPPING_def)
  have f: "OS_MAPPING (platform freebsdWorld) = None \<or> ARCH_MAPPING (arch freebsdWorld) = None"
    by (simp add: freebsdWorld_def latestWorld_def posixWorld_def OS_MAPPING_def)
  have e: "version ?o \<noteq> ''latest''" by simp
  have "getDownloadUrl win32World ''3.43.1'' =
        ([], Inr (RELEASES_URL @ ''/v'' @ ''3.43.1'' @ ''/task_'' @ ''windows'' @ ''_'' @ ''amd64'' @ ''.''
                  @ (if ''windows'' = ''windows'' then ''zip'' else ''tar.gz'')))"
    using download_url_and_platform_check
            [of win32World "''windows''" "''amd64''" "''3.43.1''", THEN conjunct1] conjI [OF w1 w2]
    by (rule mp)
  then have 1: "getDownloadUrl win32World ''3.43.1'' =
       ([], Inr ''https://github.com/go-task/task/releases/download/v3.43.1/task_windows_amd64.zip'')"
    by (simp add: RELEASES_URL_def)
  have "getDownloadUrl posixWorld ''3.43.1'' =
        ([], Inr (RELEASES_URL @ ''/v'' @ ''3.43.1'' @ ''/task_'' @ ''linux'' @ ''_'' @ ''amd64'' @ ''.''
                  @ (if ''linux'' = ''windows'' then ''zip'' else ''tar.gz'')))"
    using download_url_and_platform_check
            [of posixWorld "''linux''" "''amd64''" "''3.43.1''", THEN conjunct1] conjI [OF l1 l2]
    by (rule mp)
  then have 2: "getDownloadUrl posixWorld ''3.43.1'' =
       ([], Inr ''https://github.com/go-task/task/releases/download/v3.43.1/task_linux_amd64.tar.gz'')"
    by (simp add: RELEASES_URL_def)
  have u: "(\<exists>msg. snd (installTask freebsdWorld ?o) = Inl msg)
        \<and> (\<forall>ev \<in> set (fst (installTask freebsdWorld ?o)).
              (\<exists>endpoint headers. ev = Fetch endpoint headers)
              \<or> (\<exists>s. ev = ErrorLog s) \<or> (\<exists>s. ev = SetFailed s))
        \<and> (version ?o \<noteq> ''latest'' \<longrightarrow> \<not> list_ex isNetworkCall (fst (installTask freebsdWorld ?o)))"
    using download_url_and_platform_check
            [where w = freebsdWorld and opts = ?o, THEN conjunct2, THEN conjunct2, THEN conjunct2,
             THEN conjunct1] f
    by (rule mp)
  have 3: "\<exists>msg. snd (installTask freebsdWorld ?o) = Inl msg"
    using u by (rule conjunct1)
  have 4: "\<not> list_ex isNetworkCall (fst (installTask freebsdWorld ?o))"
    using u [THEN conjunct2, THEN conjunct2] e by (rule mp)
  have g: "version ?l = ''latest''" by simp
  have "\<exists>rest. fst (installTask freebsdWorld ?l) =
           Fetch (RELEASES_API_URL @ ''/latest'')
             (if githubToken ?l \<noteq> [] then [(''Authorization'', ''Bearer '' @ githubToken ?l)] else [])
           # rest"
    using download_url_and_platform_check
            [where w = freebsdWorld and opts = ?l, THEN conjunct2, THEN conjunct2, THEN conjunct2,
             THEN conjunct2] g
    by (rule mp)
  then have 5: "\<exists>rest. fst (installTask freebsdWorld ?l) =
          Fetch ''https://api.github.com/repos/go-task/task/releases/latest''
                [(''Authorization'', ''Bearer t0ken'')] # rest"
    by (simp add: RELEASES_API_URL_def)
  have "(\<exists>msg. snd (installTask freebsdWorld ?l) = Inl msg)
        \<and> (\<forall>ev \<in> set (fst (installTask freebsdWorld ?l)).
              (\<exists>endpoint headers. ev = Fetch endpoint headers)
              \<or> (\<exists>s. ev = ErrorLog s) \<or> (\<exists>s. ev = SetFailed s))
        \<and> (version ?l \<noteq> ''latest'' \<longrightarrow> \<not> list_ex isNetworkCall (fst (installTask freebsdWorld ?l)))"
    using download_url_and_platform_check
            [where w = freebsdWorld and opts = ?l, THEN conjunct2, THEN conjunct2, THEN conjunct2,
             THEN conjunct1] f
    by (rule mp)
  then have 6: "\<exists>msg. snd (installTask freebsdWorld ?l) = Inl msg"
    by (rule conjunct1)
  show ?thesis
    by (intro conjI) (fact w1 w2 1 l1 l2 2 f e 3 4 g 5 6)+
qed

text \<open>
  C6, in the form the code satisfies. If the executable exists right inside the
  extraction root, \<open>findExecutable\<close> probes nothing else and returns that path.
  Otherwise it goes through the entries of the root in the order listed: when \<open>e\<close> is the
  first entry that is a directory holding the executable and \<open>statSync\<close> has succeeded on
  every entry before it, it returns the path inside \<open>e\<close>, whatever follows \<open>e\<close>. When
  neither the root nor any entry that is a directory holds the executable, it returns the
  empty string. It also returns the empty string when listing the root throws, or when
  \<open>statSync\<close> throws on an entry before any match, whatever follows that entry. Every path
  it probes is the file name joined to the root or to one entry of the root. When the
  search returns the empty string, \<open>installTask\<close> fails with the message that names the
  extraction root.
\<close>

theorem findExecutable_two_levels:
  "(holdsExecutable w root \<longrightarrow>
      findExecutable w root =
        ([ExistsSync (pathJoin w root (''task'' @ EXE_EXTENSION w))],
         Inr (pathJoin w root (''task'' @ EXE_EXTENSION w))))
   \<and> (\<not> holdsExecutable w root \<and> readdirOutcome w root = Inr (pre @ e # rest)
        \<and> (\<forall>x \<in> set pre. passedEntry w root x) \<and> matchingEntry w root e \<longrightarrow>
      snd (findExecutable w root) = Inr (pathJoin w (pathJoin w root e) (''task'' @ EXE_EXTENSION w)))
   \<and> (\<not> holdsExecutable w root
        \<and> (\<forall>entries. readdirOutcome w root = Inr entries \<longrightarrow>
              (\<forall>x \<in> set entries. \<not> matchingEntry w root x)) \<longrightarrow>
      snd (findExecutable w root) = Inr [])
   \<and> (\<forall>p. ExistsSync p \<in> set (fst (findExecutable w root)) \<longrightarrow>
        p = pathJoin w root (''task'' @ EXE_EXTENSION w)
        \<or> (\<exists>entries. readdirOutcome w root = Inr entries
             \<and> (\<exists>x \<in> set entries. p = pathJoin w (pathJoin w root x) (''task'' @ EXE_EXTENSION w))))
   \<and> (resolveVersion w opts = (e1, Inr ver) \<and> getDownloadUrl w ver = (e2, Inr url)
        \<and> downloadOutcome w url = Inr dl \<and> extractArchive w url dl = (e3, Inr root)
        \<and> snd (findExecutable w root) = Inr [] \<longrightarrow>
      snd (installTask w opts) =
        Inl (''Installation process terminated. Error: Executable not found in extracted directory: '' @ root))
   \<and> (\<not> holdsExecutable w root \<and> readdirOutcome w root = Inl m \<longrightarrow>
      snd (findExecutable w root) = Inr [])
   \<and> (\<not> holdsExecutable w root \<and> readdirOutcome w root = Inr (pre @ e # rest)
        \<and> (\<forall>x \<in> set pre. passedEntry w root x)
        \<and> statIsDirectory w (pathJoin w root e) = Inl m \<longrightarrow>
      snd (findExecutable w root) = Inr [])"
proof (intro conjI impI allI)
  assume "holdsExecutable w root"
  then show "findExecutable w root =
        ([ExistsSync (pathJoin w root (''task'' @ EXE_EXTENSION w))],
         Inr (pathJoin w root (''task'' @ EXE_EXTENSION w)))"
    by (rule findExecutable_direct)
next
  assume a: "\<not> holdsExecutable w root \<and> readdirOutcome w root = Inr (pre @ e # rest)
        \<and> (\<forall>x \<in> set pre. passedEntry w root x) \<and> matchingEntry w root e"
  then have "snd (searchEntries w root (pre @ e # rest)) = snd (searchEntries w root (e # rest))"
    using searchEntries_passed by blast
  also have "\<dots> = Inr (Some (pathJoin w (pathJoin w root e) (''task'' @ EXE_EXTENSION w)))"
    using a by (simp add: searchEntries_match del: searchEntries.simps)
  finally show "snd (findExecutable w root) = Inr (pathJoin w (pathJoin w root e) (''task'' @ EXE_EXTENSION w))"
    using a by (simp add: findExecutable_listed del: searchEntries.simps)
next
  assume a: "\<not> holdsExecutable w root
        \<and> (\<forall>entries. readdirOutcome w root = Inr entries \<longrightarrow>
              (\<forall>x \<in> set entries. \<not> matchingEntry w root x))"
  show "snd (findExecutable w root) = Inr []"
  proof (cases "readdirOutcome w root")
    case (Inl m)
    then show ?thesis using a by (simp add: findExecutable_readdir_error)
  next
    case (Inr entries)
    then have "\<forall>x \<in> set entries. \<not> matchingEntry w root x" using a by blast
    then have "\<And>p. snd (searchEntries w root entries) \<noteq> Inr (Some p)"
      by (rule searchEntries_no_match)
    then show ?thesis using a Inr
      by (simp add: findExecutable_listed split: sum.splits option.splits)
  qed
next
  fix p assume "ExistsSync p \<in> set (fst (findExecutable w root))"
  then show "p = pathJoin w root (''task'' @ EXE_EXTENSION w)
        \<or> (\<exists>entries. readdirOutcome w root = Inr entries
             \<and> (\<exists>x \<in> set entries. p = pathJoin w (pathJoin w root x) (''task'' @ EXE_EXTENSION w)))"
    using findExecutable_events[of "ExistsSync p" w root] by auto
next
  assume "resolveVersion w opts = (e1, Inr ver) \<and> getDownloadUrl w ver = (e2, Inr url)
        \<and> downloadOutcome w url = Inr dl \<and> extractArchive w url dl = (e3, Inr root)
        \<and> snd (findExecutable w root) = Inr []"
  then show "snd (installTask w opts) =
        Inl (''Installation process terminated. Error: Executable not found in extracted directory: '' @ root)"
    using installTask_not_found by blast
next
  assume "\<not> holdsExecutable w root \<and> readdirOutcome w root = Inl m"
  then show "snd (findExecutable w root) = Inr []"
    by (simp add: findExecutable_readdir_error)
next
  assume "\<not> holdsExecutable w root \<and> readdirOutcome w root = Inr (pre @ e # rest)
        \<and> (\<forall>x \<in> set pre. passedEntry w root x)
        \<and> statIsDirectory w (pathJoin w root e) = Inl m"
  then show "snd (findExecutable w root) = Inr []"
    using findExecutable_stat_error by blast
qed

text \<open>
  The archive lists a dangling link before the directory that holds the executable:
  \<open>statSync\<close> throws on the link, the search ends there, and the installation fails
  although an immediate child directory holds the file.
\<close>

theorem findExecutable_first_match_counterexample:
  "\<not> holdsExecutable linkFirstWorld ''/tmp/x''
   \<and> readdirOutcome linkFirstWorld ''/tmp/x'' = Inr [''latest'', ''task_linux_amd64'']
   \<and> matchingEntry linkFirstWorld ''/tmp/x'' ''task_linux_amd64''
   \<and> findExecutable linkFirstWorld ''/tmp/x'' =
       ([ExistsSync ''/tmp/x/task'', ReaddirSync ''/tmp/x'', StatSync ''/tmp/x/latest'',
         Warning ''Error encountered while searching for executable. Error: ENOENT: no such file or directory'',
         Warning ''Executable not found: task in directory: /tmp/x''], Inr [])
   \<and> snd (installTask linkFirstWorld \<lparr>version = ''3.43.1'', skipCache = True, githubToken = []\<rparr>) =
       Inl ''Installation process terminated. Error: Executable not found in extracted directory: /tmp/x''"
proof -
  let ?o = "\<lparr>version = ''3.43.1'', skipCache = True, githubToken = []\<rparr>"
  let ?url = "''https://github.com/go-task/task/releases/download/v3.43.1/task_linux_amd64.tar.gz''"
  note defs = linkFirstWorld_def posixWorld_def pathJoin_def EXE_EXTENSION_def
  have 1: "\<not> holdsExecutable linkFirstWorld ''/tmp/x''"
    by (simp add: holdsExecutable_def defs)
  have 2: "readdirOutcome linkFirstWorld ''/tmp/x'' = Inr [''latest'', ''task_linux_amd64'']"
    by (simp add: defs)
  have 3: "matchingEntry linkFirstWorld ''/tmp/x'' ''task_linux_amd64''"
    by (simp add: matchingEntry_def holdsExecutable_def defs)
  have 4: "findExecutable linkFirstWorld ''/tmp/x'' =
       ([ExistsSync ''/tmp/x/task'', ReaddirSync ''/tmp/x'', StatSync ''/tmp/x/latest'',
         Warning ''Error encountered while searching for executable. Error: ENOENT: no such file or directory'',
         Warning ''Executable not found: task in directory: /tmp/x''], Inr [])"
    by (simp add: findExecutable_def checkDirectory_def truthy_def Let_def io_simps defs)
  have p1: "resolveVersion linkFirstWorld ?o = ([], Inr ''3.43.1'')"
    by (simp add: resolveVersion_def io_simps)
  have p2: "getDownloadUrl linkFirstWorld ''3.43.1'' = ([], Inr ?url)"
    by (simp add: getDownloadUrl_def getPlatform_def getArchitecture_def linkFirstWorld_def
        posixWorld_def OS_MAPPING_def ARCH_MAPPING_def RELEASES_URL_def io_simps)
  have p3: "downloadOutcome linkFirstWorld ?url = Inr ''/tmp/dl''"
    by (simp add: linkFirstWorld_def posixWorld_def)
  have p4: "extractArchive linkFirstWorld ?url ''/tmp/dl'' = ([ExtractTar ''/tmp/dl''], Inr ''/tmp/x'')"
    by (simp add: extractArchive_def endsWith_def linkFirstWorld_def posixWorld_def io_simps)
  have p5: "snd (findExecutable linkFirstWorld ''/tmp/x'') = Inr []"
    by (simp add: 4)
  have 5: "snd (installTask linkFirstWorld ?o) =
       Inl ''Installation process terminated. Error: Executable not found in extracted directory: /tmp/x''"
    using installTask_not_found [OF p1 p2 p3 p4 p5] by simp
  show ?thesis
    by (intro conjI) (fact 1 2 3 4 5)+
qed

theorem findExecutable_two_levels_witness:
  "holdsExecutable rootWorld ''/tmp/x''
   \<and> findExecutable rootWorld ''/tmp/x'' = ([ExistsSync ''/tmp/x/task''], Inr ''/tmp/x/task'')
   \<and> \<not> holdsExecutable nestedWorld ''/tmp/x''
   \<and> readdirOutcome nestedWorld ''/tmp/x'' = Inr ([''README.md''] @ ''task_linux_amd64'' # [''other''])
   \<and> passedEntry nestedWorld ''/tmp/x'' ''README.md''
   \<and> matchingEntry nestedWorld ''/tmp/x'' ''task_linux_amd64''
   \<and> matchingEntry nestedWorld ''/tmp/x'' ''other''
   \<and> snd (findExecutable nestedWorld ''/tmp/x'') = Inr ''/tmp/x/task_linux_amd64/task''
   \<and> fst (findExecutable nestedWorld ''/tmp/x'') =
       [ExistsSync ''/tmp/x/task'', ReaddirSync ''/tmp/x'', StatSync ''/tmp/x/README.md'',
        StatSync ''/tmp/x/task_linux_amd64'', ExistsSync ''/tmp/x/task_linux_amd64/task'']
   \<and> \<not> holdsExecutable docsOnlyWorld ''/tmp/x''
   \<and> readdirOutcome docsOnlyWorld ''/tmp/x'' = Inr [''README.md'', ''docs'']
   \<and> \<not> matchingEntry docsOnlyWorld ''/tmp/x'' ''README.md''
   \<and> \<not> matchingEntry docsOnlyWorld ''/tmp/x'' ''docs''
   \<and> snd (findExecutable docsOnlyWorld ''/tmp/x'') = Inr []
   \<and> snd (installTask docsOnlyWorld \<lparr>version = ''3.43.1'', skipCache = True, githubToken = []\<rparr>) =
        Inl ''Installation process terminated. Error: Executable not found in extracted directory: /tmp/x''
   \<and> \<not> holdsExecutable posixWorld ''/tmp/x''
   \<and> readdirOutcome posixWorld ''/tmp/x'' = Inl ''ENOENT''
   \<and> snd (findExecutable posixWorld ''/tmp/x'') = Inr []
   \<and> \<not> holdsExecutable danglingWorld ''/tmp/x''
   \<and> readdirOutcome danglingWorld ''/tmp/x'' = Inr ([''LICENSE''] @ ''broken-link'' # [''bin''])
   \<and> passedEntry danglingWorld ''/tmp/x'' ''LICENSE''
   \<and> statIsDirectory danglingWorld (pathJoin danglingWorld ''/tmp/x'' ''broken-link'') =
        Inl ''ENOENT: no such file or directory''
   \<and> snd (findExecutable danglingWorld ''/tmp/x'') = Inr []"
proof -
  let ?o = "\<lparr>version = ''3.43.1'', skipCache = True, githubToken = []\<rparr>"
  let ?url = "''https://github.com/go-task/task/releases/download/v3.43.1/task_linux_amd64.tar.gz''"
  note defs = holdsExecutable_def passedEntry_def matchingEntry_def pathJoin_def EXE_EXTENSION_def
    posixWorld_def
  have r: "holdsExecutable rootWorld ''/tmp/x''"
    by (simp add: defs rootWorld_def)
  have n1: "\<not> holdsExecutable nestedWorld ''/tmp/x''"
    by (simp add: defs nestedWorld_def)
  have n2: "readdirOutcome nestedWorld ''/tmp/x'' = Inr ([''README.md''] @ ''task_linux_amd64'' # [''other''])"
    by (simp add: defs nestedWorld_def)
  have n3: "\<forall>x \<in> set [''README.md'']. passedEntry nestedWorld ''/tmp/x'' x"
    by (simp add: defs nestedWorld_def)
  have n3': "passedEntry nestedWorld ''/tmp/x'' ''README.md''"
    by (simp add: defs nestedWorld_def)
  have d3: "readdirOutcome docsOnlyWorld ''/tmp/x'' = Inr [''README.md'', ''docs'']"
    by (simp add: defs docsOnlyWorld_def)
  have d4: "\<not> matchingEntry docsOnlyWorld ''/tmp/x'' ''README.md''"
    by (simp add: defs docsOnlyWorld_def)
  have d5: "\<not> matchingEntry docsOnlyWorld ''/tmp/x'' ''docs''"
    by (simp add: defs docsOnlyWorld_def)
  have n4: "matchingEntry nestedWorld ''/tmp/x'' ''task_linux_amd64''"
    by (simp add: defs nestedWorld_def)
  have n5: "matchingEntry nestedWorld ''/tmp/x'' ''other''"
    by (simp add: defs nestedWorld_def)
  have d1: "\<not> holdsExecutable docsOnlyWorld ''/tmp/x''"
    by (simp add: defs docsOnlyWorld_def)
  have d2: "\<forall>entries. readdirOutcome docsOnlyWorld ''/tmp/x'' = Inr entries \<longrightarrow>
                 (\<forall>x \<in> set entries. \<not> matchingEntry docsOnlyWorld ''/tmp/x'' x)"
    by (auto simp add: defs docsOnlyWorld_def)
  have "findExecutable rootWorld ''/tmp/x'' =
        ([ExistsSync (pathJoin rootWorld ''/tmp/x'' (''task'' @ EXE_EXTENSION rootWorld))],
         Inr (pathJoin rootWorld ''/tmp/x'' (''task'' @ EXE_EXTENSION rootWorld)))"
    using findExecutable_two_levels [of rootWorld "''/tmp/x''", THEN conjunct1] r
    by (rule mp)
  then have 1: "findExecutable rootWorld ''/tmp/x'' = ([ExistsSync ''/tmp/x/task''], Inr ''/tmp/x/task'')"
    by (simp add: rootWorld_def posixWorld_def pathJoin_def EXE_EXTENSION_def)
  have "snd (findExecutable nestedWorld ''/tmp/x'') =
        Inr (pathJoin nestedWorld (pathJoin nestedWorld ''/tmp/x'' ''task_linux_amd64'')
               (''task'' @ EXE_EXTENSION nestedWorld))"
    using findExecutable_two_levels
            [of nestedWorld "''/tmp/x''" "[''README.md'']" "''task_linux_amd64''" "[''other'']",
             THEN conjunct2, THEN conjunct1]
          conjI [OF n1 conjI [OF n2 conjI [OF n3 n4]]]
    by (rule mp)
  then have 2: "snd (findExecutable nestedWorld ''/tmp/x'') = Inr ''/tmp/x/task_linux_amd64/task''"
    by (simp add: nestedWorld_def posixWorld_def pathJoin_def EXE_EXTENSION_def)
  have 5: "fst (findExecutable nestedWorld ''/tmp/x'') =
       [ExistsSync ''/tmp/x/task'', ReaddirSync ''/tmp/x'', StatSync ''/tmp/x/README.md'',
        StatSync ''/tmp/x/task_linux_amd64'', ExistsSync ''/tmp/x/task_linux_amd64/task'']"
    by (simp add: findExecutable_def checkDirectory_def truthy_def Let_def io_simps
        nestedWorld_def posixWorld_def pathJoin_def EXE_EXTENSION_def)
  have 3: "snd (findExecutable docsOnlyWorld ''/tmp/x'') = Inr []"
    using findExecutable_two_levels
            [of docsOnlyWorld "''/tmp/x''", THEN conjunct2, THEN conjunct2, THEN conjunct1]
          conjI [OF d1 d2]
    by (rule mp)
  have p: "resolveVersion docsOnlyWorld ?o = ([], Inr ''3.43.1'')
           \<and> getDownloadUrl docsOnlyWorld ''3.43.1'' = ([], Inr ?url)
           \<and> downloadOutcome docsOnlyWorld ?url = Inr ''/tmp/dl''
           \<and> extractArchive docsOnlyWorld ?url ''/tmp/dl'' = ([ExtractTar ''/tmp/dl''], Inr ''/tmp/x'')
           \<and> snd (findExecutable docsOnlyWorld ''/tmp/x'') = Inr []"
    using 3
    by (simp add: resolveVersion_def getDownloadUrl_def getPlatform_def getArchitecture_def
        extractArchive_def endsWith_def docsOnlyWorld_def posixWorld_def OS_MAPPING_def ARCH_MAPPING_def
        RELEASES_URL_def io_simps)
  have "snd (installTask docsOnlyWorld ?o) =
        Inl (''Installation process terminated. Error: Executable not found in extracted directory: ''
             @ ''/tmp/x'')"
    using findExecutable_two_levels
            [where w = docsOnlyWorld and root = "''/tmp/x''" and opts = ?o and ?e1.0 = "[]"
               and ver = "''3.43.1''" and ?e2.0 = "[]" and url = ?url and dl = "''/tmp/dl''"
               and ?e3.0 = "[ExtractTar ''/tmp/dl'']",
             THEN conjunct2, THEN conjunct2, THEN conjunct2, THEN conjunct2, THEN conjunct1] p
    by (rule mp)
  then have 4: "snd (installTask docsOnlyWorld ?o) =
        Inl ''Installation process terminated. Error: Executable not found in extracted directory: /tmp/x''"
    by simp
  have e1: "\<not> holdsExecutable posixWorld ''/tmp/x''"
    by (simp add: defs)
  have e2: "readdirOutcome posixWorld ''/tmp/x'' = Inl ''ENOENT''"
    by (simp add: defs)
  have e3: "snd (findExecutable posixWorld ''/tmp/x'') = Inr []"
    using findExecutable_two_levels
            [where w = posixWorld and root = "''/tmp/x''" and m = "''ENOENT''",
             THEN conjunct2, THEN conjunct2, THEN conjunct2, THEN conjunct2, THEN conjunct2,
             THEN conjunct1]
          conjI [OF e1 e2]
    by (rule mp)
  have g1: "\<not> holdsExecutable danglingWorld ''/tmp/x''"
    by (simp add: defs danglingWorld_def)
  have g2: "readdirOutcome danglingWorld ''/tmp/x'' = Inr ([''LICENSE''] @ ''broken-link'' # [''bin''])"
    by (simp add: defs danglingWorld_def)
  have g3: "\<forall>x \<in> set [''LICENSE'']. passedEntry danglingWorld ''/tmp/x'' x"
    by (simp add: defs danglingWorld_def)
  have g3': "passedEntry danglingWorld ''/tmp/x'' ''LICENSE''"
    by (simp add: defs danglingWorld_def)
  have g4: "statIsDirectory danglingWorld (pathJoin danglingWorld ''/tmp/x'' ''broken-link'') =
        Inl ''ENOENT: no such file or directory''"
    by (simp add: defs danglingWorld_def)
  have g5: "snd (findExecutable danglingWorld ''/tmp/x'') = Inr []"
    using findExecutable_two_levels
            [where w = danglingWorld and root = "''/tmp/x''" and pre = "[''LICENSE'']"
               and e = "''broken-link''" and rest = "[''bin'']"
               and m = "''ENOENT: no such file or directory''",
             THEN conjunct2, THEN conjunct2, THEN conjunct2, THEN conjunct2, THEN conjunct2,
             THEN conjunct2]
          conjI [OF g1 conjI [OF g2 conjI [OF g3 g4]]]
    by (rule mp)
  show ?thesis
    by (intro conjI) (fact r 1 n1 n2 n3' n4 n5 2 5 d1 d3 d4 d5 3 4 e1 e2 e3 g1 g2 g3' g4 g5)+
qed

text \<open>
  C10. When the executable is not in the extraction root and \<open>readdirSync\<close> throws, or
  \<open>statSync\<close> throws on an entry reached by the search, \<open>findExecutable\<close> logs the
  error as a warning and returns the empty string. It never throws, never logs at error
  level and never signals failure itself. \<open>installTask\<close> then fails with the
  executable-not-found message, which names the extraction root and not the error.
\<close>

theorem search_errors_become_not_found:
  "(\<not> holdsExecutable w root \<and> readdirOutcome w root = Inl m \<longrightarrow>
      findExecutable w root =
        ([ExistsSync (pathJoin w root (''task'' @ EXE_EXTENSION w)), ReaddirSync root,
          Warning (''Error encountered while searching for executable. Error: '' @ m),
          Warning (''Executable not found: '' @ ''task'' @ EXE_EXTENSION w @ '' in directory: '' @ root)],
         Inr []))
   \<and> (\<not> holdsExecutable w root \<and> readdirOutcome w root = Inr (pre @ e # rest)
        \<and> (\<forall>x \<in> set pre. passedEntry w root x)
        \<and> statIsDirectory w (pathJoin w root e) = Inl m \<longrightarrow>
      snd (findExecutable w root) = Inr []
      \<and> Warning (''Error encountered while searching for executable. Error: '' @ m)
          \<in> set (fst (findExecutable w root)))
   \<and> (\<forall>s. ErrorLog s \<notin> set (fst (findExecutable w root))
          \<and> SetFailed s \<notin> set (fst (findExecutable w root))
          \<and> snd (findExecutable w root) \<noteq> Inl s)
   \<and> (resolveVersion w opts = (e1, Inr ver) \<and> getDownloadUrl w ver = (e2, Inr url)
        \<and> downloadOutcome w url = Inr dl \<and> extractArchive w url dl = (e3, Inr root)
        \<and> snd (findExecutable w root) = Inr [] \<longrightarrow>
      snd (installTask w opts) =
        Inl (''Installation process terminated. Error: Executable not found in extracted directory: '' @ root))"
proof (intro conjI impI allI)
  assume "\<not> holdsExecutable w root \<and> readdirOutcome w root = Inl m"
  then show "findExecutable w root =
        ([ExistsSync (pathJoin w root (''task'' @ EXE_EXTENSION w)), ReaddirSync root,
          Warning (''Error encountered while searching for executable. Error: '' @ m),
          Warning (''Executable not found: '' @ ''task'' @ EXE_EXTENSION w @ '' in directory: '' @ root)],
         Inr [])"
    using findExecutable_readdir_error by blast
next
  assume a: "\<not> holdsExecutable w root \<and> readdirOutcome w root = Inr (pre @ e # rest)
        \<and> (\<forall>x \<in> set pre. passedEntry w root x)
        \<and> statIsDirectory w (pathJoin w root e) = Inl m"
  then have "snd (searchEntries w root (pre @ e # rest)) = snd (searchEntries w root (e # rest))"
    using searchEntries_passed by blast
  also have "\<dots> = Inl m"
    using a by (simp add: searchEntries_stat_error del: searchEntries.simps)
  finally have s: "snd (searchEntries w root (pre @ e # rest)) = Inl m" .
  show "snd (findExecutable w root) = Inr []"
    using a s by (simp add: findExecutable_listed del: searchEntries.simps)
  show "Warning (''Error encountered while searching for executable. Error: '' @ m)
          \<in> set (fst (findExecutable w root))"
    using a s by (simp add: findExecutable_listed del: searchEntries.simps)
next
  fix s
  show "ErrorLog s \<notin> set (fst (findExecutable w root))"
    using findExecutable_events[of "ErrorLog s" w root] by auto
  show "SetFailed s \<notin> set (fst (findExecutable w root))"
    using findExecutable_events[of "SetFailed s" w root] by auto
  show "snd (findExecutable w root) \<noteq> Inl s"
    using findExecutable_total[of w root] by auto
next
  assume "resolveVersion w opts = (e1, Inr ver) \<and> getDownloadUrl w ver = (e2, Inr url)
        \<and> downloadOutcome w url = Inr dl \<and> extractArchive w url dl = (e3, Inr root)
        \<and> snd (findExecutable w root) = Inr []"
  then show "snd (installTask w opts) =
        Inl (''Installation process terminated. Error: Executable not found in extracted directory: '' @ root)"
    using installTask_not_found by blast
qed

theorem search_errors_become_not_found_witness:
  "\<not> holdsExecutable posixWorld ''/tmp/x''
   \<and> readdirOutcome posixWorld ''/tmp/x'' = Inl ''ENOENT''
   \<and> findExecutable posixWorld ''/tmp/x'' =
       ([ExistsSync ''/tmp/x/task'', ReaddirSync ''/tmp/x'',
         Warning ''Error encountered while searching for executable. Error: ENOENT'',
         Warning ''Executable not found: task in directory: /tmp/x''], Inr [])
   \<and> \<not> holdsExecutable danglingWorld ''/tmp/x''
   \<and> readdirOutcome danglingWorld ''/tmp/x'' = Inr ([''LICENSE''] @ ''broken-link'' # [''bin''])
   \<and> passedEntry danglingWorld ''/tmp/x'' ''LICENSE''
   \<and> statIsDirectory danglingWorld (pathJoin danglingWorld ''/tmp/x'' ''broken-link'')
       = Inl ''ENOENT: no such file or directory''
   \<and> matchingEntry danglingWorld ''/tmp/x'' ''bin''
   \<and> snd (findExecutable danglingWorld ''/tmp/x'') = Inr []
   \<and> Warning ''Error encountered while searching for executable. Error: ENOENT: no such file or directory''
        \<in> set (fst (findExecutable danglingWorld ''/tmp/x''))
   \<and> snd (installTask danglingWorld \<lparr>version = ''3.43.1'', skipCache = True, githubToken = []\<rparr>) =
        Inl ''Installation process terminated. Error: Executable not found in extracted directory: /tmp/x''"
proof -
  let ?o = "\<lparr>version = ''3.43.1'', skipCache = True, githubToken = []\<rparr>"
  let ?url = "''https://github.com/go-task/task/releases/download/v3.43.1/task_linux_amd64.tar.gz''"
  note defs = holdsExecutable_def passedEntry_def matchingEntry_def danglingWorld_def posixWorld_def
    pathJoin_def EXE_EXTENSION_def
  have a: "\<not> holdsExecutable posixWorld ''/tmp/x'' \<and> readdirOutcome posixWorld ''/tmp/x'' = Inl ''ENOENT''"
    by (simp add: defs)
  have b: "\<not> holdsExecutable danglingWorld ''/tmp/x''
           \<and> readdirOutcome danglingWorld ''/tmp/x'' = Inr ([''LICENSE''] @ ''broken-link'' # [''bin''])
           \<and> (\<forall>x \<in> set [''LICENSE'']. passedEntry danglingWorld ''/tmp/x'' x)
           \<and> statIsDirectory danglingWorld (pathJoin danglingWorld ''/tmp/x'' ''broken-link'')
               = Inl ''ENOENT: no such file or directory''"
    by (simp add: defs)
  have c: "matchingEntry danglingWorld ''/tmp/x'' ''bin''"
    by (simp add: defs)
  have b': "passedEntry danglingWorld ''/tmp/x'' ''LICENSE''"
    by (simp add: defs)
  have p: "resolveVersion danglingWorld ?o = ([], Inr ''3.43.1'')
           \<and> getDownloadUrl danglingWorld ''3.43.1'' = ([], Inr ?url)
           \<and> downloadOutcome danglingWorld ?url = Inr ''/tmp/dl''
           \<and> extractArchive danglingWorld ?url ''/tmp/dl'' = ([ExtractTar ''/tmp/dl''], Inr ''/tmp/x'')"
    by (simp add: resolveVersion_def getDownloadUrl_def getPlatform_def getArchitecture_def
        extractArchive_def endsWith_def danglingWorld_def posixWorld_def OS_MAPPING_def ARCH_MAPPING_def
        RELEASES_URL_def io_simps)
  have 1: "findExecutable posixWorld ''/tmp/x'' =
       ([ExistsSync ''/tmp/x/task'', ReaddirSync ''/tmp/x'',
         Warning ''Error encountered while searching for executable. Error: ENOENT'',
         Warning ''Executable not found: task in directory: /tmp/x''], Inr [])"
    using search_errors_become_not_found [of posixWorld "''/tmp/x''" "''ENOENT''"] a
    by (simp add: posixWorld_def pathJoin_def EXE_EXTENSION_def)
  have 2: "snd (findExecutable danglingWorld ''/tmp/x'') = Inr []
           \<and> Warning ''Error encountered while searching for executable. Error: ENOENT: no such file or directory''
                \<in> set (fst (findExecutable danglingWorld ''/tmp/x''))"
    using search_errors_become_not_found [of danglingWorld "''/tmp/x''"
        "''ENOENT: no such file or directory''" "[''LICENSE'']" "''broken-link''" "[''bin'']"] b
    by simp
  have 3: "snd (installTask danglingWorld ?o) =
        Inl ''Installation process terminated. Error: Executable not found in extracted directory: /tmp/x''"
    using search_errors_become_not_found [of danglingWorld "''/tmp/x''" _ _ _ _ ?o "[]" "''3.43.1''" "[]"
        ?url "''/tmp/dl''" "[ExtractTar ''/tmp/dl'']"] p 2
    by simp
  show ?thesis using a b b' c 1 2 3 by simp
qed

section \<open>Verification\<close>

text \<open>
  C9, in the form the code satisfies. \<open>verifyInstallation\<close> looks the tool up on the
  search path and executes the trimmed path with \<open>--version\<close>. When both commands run to
  completion, it fails with a message that mentions \<open>No version returned\<close> if and only if
  the captured output is empty after trimming, and succeeds otherwise. When the lookup or
  the version query is rejected, it fails with the message of that rejection, whatever
  was captured.
\<close>

theorem verification_requires_output:
  "(whichVerify w = Inr taskPath \<and> versionQuery w (trim taskPath) = (output, None) \<longrightarrow>
      fst (verifyInstallation w) =
        [Exec ''which'' [''task''], Exec (trim taskPath) [''--version'']]
        @ (if trim output = []
           then [ErrorLog ''Task verification error: Task verification failed: No version returned from Task'']
           else [])
      \<and> (trim output = [] \<longrightarrow>
           snd (verifyInstallation w) =
             Inl ''Task verification failed: Task verification failed: No version returned from Task'')
      \<and> (trim output \<noteq> [] \<longrightarrow> snd (verifyInstallation w) = Inr ())
      \<and> ((\<exists>msg. snd (verifyInstallation w) = Inl msg \<and> strIncludes msg ''No version returned'')
           \<longleftrightarrow> trim output = []))
   \<and> (whichVerify w = Inl e \<longrightarrow>
      verifyInstallation w =
        ([Exec ''which'' [''task''], ErrorLog (''Task verification error: '' @ e)],
         Inl (''Task verification failed: '' @ e)))
   \<and> (whichVerify w = Inr taskPath \<and> versionQuery w (trim taskPath) = (output, Some e) \<longrightarrow>
      verifyInstallation w =
        ([Exec ''which'' [''task''], Exec (trim taskPath) [''--version''],
          ErrorLog (''Task verification error: '' @ e)],
         Inl (''Task verification failed: '' @ e)))"
proof -
  have inc: "strIncludes ''Task verification failed: Task verification failed: No version returned from Task''
               ''No version returned''"
    by (simp add: startsWith_def)
  have 1: "whichVerify w = Inr taskPath \<and> versionQuery w (trim taskPath) = (output, None) \<longrightarrow>
      fst (verifyInstallation w) =
        [Exec ''which'' [''task''], Exec (trim taskPath) [''--version'']]
        @ (if trim output = []
           then [ErrorLog ''Task verification error: Task verification failed: No version returned from Task'']
           else [])
      \<and> (trim output = [] \<longrightarrow>
           snd (verifyInstallation w) =
             Inl ''Task verification failed: Task verification failed: No version returned from Task'')
      \<and> (trim output \<noteq> [] \<longrightarrow> snd (verifyInstallation w) = Inr ())
      \<and> ((\<exists>msg. snd (verifyInstallation w) = Inl msg \<and> strIncludes msg ''No version returned'')
           \<longleftrightarrow> trim output = [])"
  proof
    assume a: "whichVerify w = Inr taskPath \<and> versionQuery w (trim taskPath) = (output, None)"
    show "fst (verifyInstallation w) =
        [Exec ''which'' [''task''], Exec (trim taskPath) [''--version'']]
        @ (if trim output = []
           then [ErrorLog ''Task verification error: Task verification failed: No version returned from Task'']
           else [])
      \<and> (trim output = [] \<longrightarrow>
           snd (verifyInstallation w) =
             Inl ''Task verification failed: Task verification failed: No version returned from Task'')
      \<and> (trim output \<noteq> [] \<longrightarrow> snd (verifyInstallation w) = Inr ())
      \<and> ((\<exists>msg. snd (verifyInstallation w) = Inl msg \<and> strIncludes msg ''No version returned'')
           \<longleftrightarrow> trim output = [])"
      using inc verifyInstallation_completed [of w taskPath "output"] a by simp
  qed
  have 2: "whichVerify w = Inl e \<longrightarrow>
      verifyInstallation w =
        ([Exec ''which'' [''task''], ErrorLog (''Task verification error: '' @ e)],
         Inl (''Task verification failed: '' @ e))"
    using verifyInstallation_not_found by blast
  have 3: "whichVerify w = Inr taskPath \<and> versionQuery w (trim taskPath) = (output, Some e) \<longrightarrow>
      verifyInstallation w =
        ([Exec ''which'' [''task''], Exec (trim taskPath) [''--version''],
          ErrorLog (''Task verification error: '' @ e)],
         Inl (''Task verification failed: '' @ e))"
    using verifyInstallation_rejected by blast
  show ?thesis using 1 2 3 by (intro conjI)
qed

text \<open>
  A file that cannot be executed prints nothing, yet the failure does not mention
  \<open>No version returned\<close>; a tool that prints its version and exits with a non-zero code
  has non-empty output, yet the verification fails.
\<close>

theorem verification_rejected_counterexample:
  "versionQuery brokenBinaryWorld ''/tmp/x/task'' =
     ([], Some ''The process /tmp/x/task failed with exit code 126'')
   \<and> trim [] = []
   \<and> verifyInstallation brokenBinaryWorld =
       ([Exec ''which'' [''task''], Exec ''/tmp/x/task'' [''--version''],
         ErrorLog ''Task verification error: The process /tmp/x/task failed with exit code 126''],
        Inl ''Task verification failed: The process /tmp/x/task failed with exit code 126'')
   \<and> \<not> strIncludes ''Task verification failed: The process /tmp/x/task failed with exit code 126''
           ''No version returned''
   \<and> versionQuery failingToolWorld ''/tmp/x/task'' =
       (''Task version: 3.43.1'' @ [CHR 0x0A], Some ''The process /tmp/x/task failed with exit code 1'')
   \<and> trim (''Task version: 3.43.1'' @ [CHR 0x0A]) = ''Task version: 3.43.1''
   \<and> verifyInstallation failingToolWorld =
       ([Exec ''which'' [''task''], Exec ''/tmp/x/task'' [''--version''],
         ErrorLog ''Task verification error: The process /tmp/x/task failed with exit code 1''],
        Inl ''Task verification failed: The process /tmp/x/task failed with exit code 1'')"
proof -
  have tp: "trim ''/tmp/x/task'' = ''/tmp/x/task''" by code_simp
  have 1: "versionQuery brokenBinaryWorld ''/tmp/x/task'' =
     ([], Some ''The process /tmp/x/task failed with exit code 126'')"
    by (simp add: brokenBinaryWorld_def posixWorld_def)
  have 2: "trim [] = []" by code_simp
  have 3: "verifyInstallation brokenBinaryWorld =
       ([Exec ''which'' [''task''], Exec ''/tmp/x/task'' [''--version''],
         ErrorLog ''Task verification error: The process /tmp/x/task failed with exit code 126''],
        Inl ''Task verification failed: The process /tmp/x/task failed with exit code 126'')"
    using verifyInstallation_rejected [of brokenBinaryWorld "''/tmp/x/task''" "[]"
            "''The process /tmp/x/task failed with exit code 126''"]
    by (simp add: tp brokenBinaryWorld_def posixWorld_def)
  have 4: "\<not> strIncludes ''Task verification failed: The process /tmp/x/task failed with exit code 126''
           ''No version returned''"
    by (simp add: startsWith_def)
  have 5: "versionQuery failingToolWorld ''/tmp/x/task'' =
       (''Task version: 3.43.1'' @ [CHR 0x0A], Some ''The process /tmp/x/task failed with exit code 1'')"
    by (simp add: failingToolWorld_def posixWorld_def)
  have 6: "trim (''Task version: 3.43.1'' @ [CHR 0x0A]) = ''Task version: 3.43.1''" by code_simp
  have 7: "verifyInstallation failingToolWorld =
       ([Exec ''which'' [''task''], Exec ''/tmp/x/task'' [''--version''],
         ErrorLog ''Task verification error: The process /tmp/x/task failed with exit code 1''],
        Inl ''Task verification failed: The process /tmp/x/task failed with exit code 1'')"
    using verifyInstallation_rejected [of failingToolWorld "''/tmp/x/task''"
            "''Task version: 3.43.1'' @ [CHR 0x0A]" "''The process /tmp/x/task failed with exit code 1''"]
    by (simp add: tp failingToolWorld_def posixWorld_def)
  show ?thesis
    by (intro conjI) (fact 1 2 3 4 5 6 7)+
qed

theorem verification_requires_output_witness:
  "whichVerify posixWorld = Inr ''/tmp/x/task''
   \<and> versionQuery posixWorld (trim ''/tmp/x/task'') = (''3.43.1'', None)
   \<and> trim ''3.43.1'' \<noteq> []
   \<and> snd (verifyInstallation posixWorld) = Inr ()
   \<and> whichVerify silentToolWorld = Inr ''/tmp/x/task''
   \<and> versionQuery silentToolWorld (trim ''/tmp/x/task'') = ([CHR 0x0A], None)
   \<and> trim [CHR 0x0A] = []
   \<and> snd (verifyInstallation silentToolWorld) =
       Inl ''Task verification failed: Task verification failed: No version returned from Task''
   \<and> whichVerify notOnPathWorld = Inl ''The process which failed with exit code 1''
   \<and> verifyInstallation notOnPathWorld =
       ([Exec ''which'' [''task''],
         ErrorLog ''Task verification error: The process which failed with exit code 1''],
        Inl ''Task verification failed: The process which failed with exit code 1'')
   \<and> whichVerify brokenBinaryWorld = Inr ''/tmp/x/task''
   \<and> versionQuery brokenBinaryWorld (trim ''/tmp/x/task'') =
       ([], Some ''The process /tmp/x/task failed with exit code 126'')
   \<and> snd (verifyInstallation brokenBinaryWorld) =
       Inl ''Task verification failed: The process /tmp/x/task failed with exit code 126''"
proof -
  have tp: "trim ''/tmp/x/task'' = ''/tmp/x/task''" by code_simp
  have tv: "trim ''3.43.1'' \<noteq> []" by code_simp
  have p1: "whichVerify posixWorld = Inr ''/tmp/x/task''"
    by (simp add: posixWorld_def)
  have p2: "versionQuery posixWorld (trim ''/tmp/x/task'') = (''3.43.1'', None)"
    by (simp add: posixWorld_def)
  have s1: "whichVerify silentToolWorld = Inr ''/tmp/x/task''"
    by (simp add: silentToolWorld_def posixWorld_def)
  have s2: "versionQuery silentToolWorld (trim ''/tmp/x/task'') = ([CHR 0x0A], None)"
    by (simp add: silentToolWorld_def posixWorld_def)
  have n1: "whichVerify notOnPathWorld = Inl ''The process which failed with exit code 1''"
    by (simp add: notOnPathWorld_def posixWorld_def)
  have b1: "whichVerify brokenBinaryWorld = Inr ''/tmp/x/task''"
    by (simp add: brokenBinaryWorld_def posixWorld_def)
  have b2: "versionQuery brokenBinaryWorld (trim ''/tmp/x/task'') =
       ([], Some ''The process /tmp/x/task failed with exit code 126'')"
    by (simp add: brokenBinaryWorld_def posixWorld_def)
  have "fst (verifyInstallation posixWorld) =
        [Exec ''which'' [''task''], Exec (trim ''/tmp/x/task'') [''--version'']]
        @ (if trim ''3.43.1'' = []
           then [ErrorLog ''Task verification error: Task verification failed: No version returned from Task'']
           else [])
      \<and> (trim ''3.43.1'' = [] \<longrightarrow>
           snd (verifyInstallation posixWorld) =
             Inl ''Task verification failed: Task verification failed: No version returned from Task'')
      \<and> (trim ''3.43.1'' \<noteq> [] \<longrightarrow> snd (verifyInstallation posixWorld) = Inr ())
      \<and> ((\<exists>msg. snd (verifyInstallation posixWorld) = Inl msg \<and> strIncludes msg ''No version returned'')
           \<longleftrightarrow> trim ''3.43.1'' = [])"
    using verification_requires_output
            [of posixWorld "''/tmp/x/task''" "''3.43.1''", THEN conjunct1] conjI [OF p1 p2]
    by (rule mp)
  then have 1: "snd (verifyInstallation posixWorld) = Inr ()"
    using tv by blast
  have "fst (verifyInstallation silentToolWorld) =
        [Exec ''which'' [''task''], Exec (trim ''/tmp/x/task'') [''--version'']]
        @ (if trim [CHR 0x0A] = []
           then [ErrorLog ''Task verification error: Task verification failed: No version returned from Task'']
           else [])
      \<and> (trim [CHR 0x0A] = [] \<longrightarrow>
           snd (verifyInstallation silentToolWorld) =
             Inl ''Task verification failed: Task verification failed: No version returned from Task'')
      \<and> (trim [CHR 0x0A] \<noteq> [] \<longrightarrow> snd (verifyInstallation silentToolWorld) = Inr ())
      \<and> ((\<exists>msg. snd (verifyInstallation silentToolWorld) = Inl msg
                 \<and> strIncludes msg ''No version returned'')
           \<longleftrightarrow> trim [CHR 0x0A] = [])"
    using verification_requires_output
            [of silentToolWorld "''/tmp/x/task''" "[CHR 0x0A]", THEN conjunct1] conjI [OF s1 s2]
    by (rule mp)
  then have 2: "snd (verifyInstallation silentToolWorld) =
       Inl ''Task verification failed: Task verification failed: No version returned from Task''"
    using trim_lf by blast
  have "verifyInstallation notOnPathWorld =
        ([Exec ''which'' [''task''],
          ErrorLog (''Task verification error: '' @ ''The process which failed with exit code 1'')],
         Inl (''Task verification failed: '' @ ''The process which failed with exit code 1''))"
    using verification_requires_output
            [where w = notOnPathWorld and e = "''The process which failed with exit code 1''",
             THEN conjunct2, THEN conjunct1] n1
    by (rule mp)
  then have 3: "verifyInstallation notOnPathWorld =
       ([Exec ''which'' [''task''],
         ErrorLog ''Task verification error: The process which failed with exit code 1''],
        Inl ''Task verification failed: The process which failed with exit code 1'')"
    by simp
  have "verifyInstallation brokenBinaryWorld =
        ([Exec ''which'' [''task''], Exec (trim ''/tmp/x/task'') [''--version''],
          ErrorLog (''Task verification error: '' @ ''The process /tmp/x/task failed with exit code 126'')],
         Inl (''Task verification failed: '' @ ''The process /tmp/x/task failed with exit code 126''))"
    using verification_requires_output
            [of brokenBinaryWorld "''/tmp/x/task''" "[]"
               "''The process /tmp/x/task failed with exit code 126''",
             THEN conjunct2, THEN conjunct2] conjI [OF b1 b2]
    by (rule mp)
  then have 4: "snd (verifyInstallation brokenBinaryWorld) =
       Inl ''Task verification failed: The process /tmp/x/task failed with exit code 126''"
    by simp
  show ?thesis
    by (intro conjI) (fact p1 p2 tv 1 s1 s2 trim_lf 2 n1 3 b1 b2 4)+
qed

end
